theory Spec2Isabelle
  imports Complex_Main "HOL-Library.AList" "HOL-Library.Multiset"
begin

section \<open>JavaScript values\<close>

text \<open>
  A JavaScript number is an IEEE double. A finite double is modelled by the rational it
  denotes and arithmetic on finite values is exact; \<open>NaN\<close> is a value of its own, as the
  sources test for it (\<open>Number.isNaN\<close>, \<open>typeof x === "number"\<close>). Rounding error, signed
  zero and the infinities are outside the model.
\<close>

datatype jsnum = Fin rat | NaN

text \<open>
  A field that may be missing: \<open>undefined\<close>, \<open>null\<close>, or a value. A field is given this
  type when its declared type is optional or when the code reads it through \<open>??\<close>, \<open>?.\<close>
  or \<open>typeof\<close>.
\<close>

datatype 'a nullable = Undefined | Null | Val 'a

text \<open>\<open>x ?? d\<close>\<close>

fun nullish :: "'a nullable \<Rightarrow> 'a \<Rightarrow> 'a" where
  "nullish (Val x) d = x"
| "nullish Undefined d = d"
| "nullish Null d = d"

text \<open>\<open>x ?? y\<close> where \<open>y\<close> may itself be missing\<close>

fun nullish_chain :: "'a nullable \<Rightarrow> 'a nullable \<Rightarrow> 'a nullable" where
  "nullish_chain (Val x) y = Val x"
| "nullish_chain Undefined y = y"
| "nullish_chain Null y = y"

text \<open>\<open>typeof x === "number"\<close>; \<open>typeof NaN\<close> is \<open>"number"\<close> too.\<close>

fun is_number :: "jsnum nullable \<Rightarrow> bool" where
  "is_number (Val x) = True"
| "is_number Undefined = False"
| "is_number Null = False"

text \<open>
  ToNumber, applied by \<open>+=\<close> to an operand that is not a number:
  \<open>undefined\<close> becomes \<open>NaN\<close> and \<open>null\<close> becomes \<open>0\<close>.
\<close>

fun to_number :: "jsnum nullable \<Rightarrow> jsnum" where
  "to_number (Val x) = x"
| "to_number Undefined = NaN"
| "to_number Null = Fin 0"

instantiation jsnum :: comm_monoid_add
begin

definition zero_jsnum :: jsnum where
  "zero_jsnum = Fin 0"

fun plus_jsnum :: "jsnum \<Rightarrow> jsnum \<Rightarrow> jsnum" where
  "plus_jsnum (Fin a) (Fin b) = Fin (a + b)"
| "plus_jsnum NaN y = NaN"
| "plus_jsnum (Fin a) NaN = NaN"

lemma plus_jsnum_regroup: "(x + y) + z = x + (y + z)" for x y z :: jsnum
  by (cases x; cases y; cases z) simp_all

lemma plus_jsnum_swap: "x + y = y + x" for x y :: jsnum
  by (cases x; cases y) simp_all

lemma plus_jsnum_zero_left: "Fin 0 + x = x"
  by (cases x) simp_all

instance
  by standard
     (simp_all only: plus_jsnum_regroup plus_jsnum_zero_left zero_jsnum_def, rule plus_jsnum_swap)

end

text \<open>\<open>a * b\<close>, \<open>a / b\<close> for a divisor that is not zero, and the comparisons; every
  comparison with \<open>NaN\<close> is false.\<close>

fun js_times :: "jsnum \<Rightarrow> jsnum \<Rightarrow> jsnum" where
  "js_times (Fin a) (Fin b) = Fin (a * b)"
| "js_times NaN y = NaN"
| "js_times (Fin a) NaN = NaN"

fun js_minus :: "jsnum \<Rightarrow> jsnum \<Rightarrow> jsnum" where
  "js_minus (Fin a) (Fin b) = Fin (a - b)"
| "js_minus NaN y = NaN"
| "js_minus (Fin a) NaN = NaN"

text \<open>Division. No call site divides by zero (the quotient would be an infinity or
  \<open>NaN\<close>); the model returns \<open>NaN\<close> there.\<close>

fun js_div :: "jsnum \<Rightarrow> jsnum \<Rightarrow> jsnum" where
  "js_div (Fin a) (Fin b) = (if b = 0 then NaN else Fin (a / b))"
| "js_div NaN y = NaN"
| "js_div (Fin a) NaN = NaN"

fun js_le :: "jsnum \<Rightarrow> jsnum \<Rightarrow> bool" where
  "js_le (Fin a) (Fin b) = (a \<le> b)"
| "js_le NaN y = False"
| "js_le (Fin a) NaN = False"

fun js_gt :: "jsnum \<Rightarrow> jsnum \<Rightarrow> bool" where
  "js_gt (Fin a) (Fin b) = (a > b)"
| "js_gt NaN y = False"
| "js_gt (Fin a) NaN = False"

text \<open>\<open>Math.floor\<close>, \<open>Math.round\<close> (halves go up), \<open>Math.min\<close>, \<open>Math.max\<close>,
  \<open>Number.isNaN\<close>\<close>

fun js_floor :: "jsnum \<Rightarrow> jsnum" where
  "js_floor (Fin a) = Fin (of_int \<lfloor>a\<rfloor>)"
| "js_floor NaN = NaN"





subsection \<open>Strings\<close>

text \<open>
  Strings are lists of characters, read as ASCII. \<open>a < b\<close> on strings compares code
  units from the left; a proper prefix is smaller.
\<close>

fun str_lt :: "string \<Rightarrow> string \<Rightarrow> bool" where
  "str_lt [] [] = False"
| "str_lt [] (y # ys) = True"
| "str_lt (x # xs) [] = False"
| "str_lt (x # xs) (y # ys) =
     (if (of_char x :: nat) < of_char y then True
      else if (of_char y :: nat) < of_char x then False
      else str_lt xs ys)"

section \<open>Invoices\<close>

datatype status = Paid | Unpaid | Overdue

text \<open>src/types/invoice.ts, \<open>Invoice\<close>\<close>

record Invoice =
  invoiceNumber :: string
  postingDate :: string
  amount :: "jsnum nullable"
  amountInclVat :: "jsnum nullable"
  dueDate :: string
  status :: status
  invoicePdf :: string
  billingDataExcel :: string

subsection \<open>Derived status\<close>

text \<open>
  \<open>mapStatus\<close> of src/hooks/useInvoiceDetail.ts. The first argument is
  \<open>new Date().toISOString().slice(0, 10)\<close>, the current date as the clock gives it.
\<close>

definition mapStatus :: "string \<Rightarrow> jsnum \<Rightarrow> string \<Rightarrow> status" where
  "mapStatus today remainingAmountIncludingVAT dueDate' =
     (if remainingAmountIncludingVAT = Fin 0 then Paid
      else if str_lt dueDate' today then Overdue else Unpaid)"

text \<open>The raw invoice of the list endpoint (src/hooks/useInvoices.ts, \<open>ApiInvoice\<close>);
  \<open>lines\<close> carries the \<open>billingDataExcel\<close> of each line.\<close>

record ApiInvoice =
  invoiceNo :: string
  api_postingDate :: string
  api_amount :: "jsnum nullable"
  amountIncludingVAT :: "jsnum nullable"
  remainingAmountIncludingVAT :: jsnum
  api_dueDate :: string
  api_invoicePdf :: string
  api_lines :: "string nullable list"

text \<open>\<open>mapStatus\<close> of src/hooks/useInvoices.ts\<close>

definition mapStatus_list :: "string \<Rightarrow> ApiInvoice \<Rightarrow> status" where
  "mapStatus_list today ai =
     (if remainingAmountIncludingVAT ai = Fin 0 then Paid
      else if str_lt (api_dueDate ai) today then Overdue else Unpaid)"

text \<open>\<open>mapInvoice\<close> of src/hooks/useInvoices.ts\<close>

definition mapInvoice :: "string \<Rightarrow> ApiInvoice \<Rightarrow> Invoice" where
  "mapInvoice today ai =
     \<lparr> invoiceNumber = invoiceNo ai,
       postingDate = api_postingDate ai,
       amount = api_amount ai,
       amountInclVat = amountIncludingVAT ai,
       dueDate = api_dueDate ai,
       status = mapStatus_list today ai,
       invoicePdf = api_invoicePdf ai,
       billingDataExcel =
         (case api_lines ai of [] \<Rightarrow> [] | l # _ \<Rightarrow> nullish l []) \<rparr>"

subsection \<open>Billing metrics (src/utils/billingCalculations.ts)\<close>


datatype BillingAmountMode = inclVat | exclVat








subsection \<open>Aging buckets (src/utils/billingCalculations.ts)\<close>

record AgingBuckets =
  b0_30 :: jsnum
  b31_60 :: jsnum
  b61_90 :: jsnum
  b90plus :: jsnum

definition MS_PER_DAY :: rat where
  "MS_PER_DAY = 1000 * 60 * 60 * 24"

text \<open>
  \<open>diffInDays\<close>. \<open>from\<close> is the time value of the reference \<open>Date\<close> (milliseconds, \<open>NaN\<close>
  for an invalid date). \<open>new Date(toIso).getTime()\<close> is the runtime's date parser, which is
  not code of this repository: it is the parameter \<open>dateTime\<close>.
\<close>

definition diffInDays :: "(string \<Rightarrow> jsnum) \<Rightarrow> jsnum \<Rightarrow> string \<Rightarrow> jsnum" where
  "diffInDays dateTime from toIso =
     (let due = dateTime toIso;
          diff = js_minus from due
      in js_floor (js_div diff (Fin MS_PER_DAY)))"

definition aging_step ::
  "(string \<Rightarrow> jsnum) \<Rightarrow> jsnum \<Rightarrow> AgingBuckets \<Rightarrow> Invoice \<Rightarrow> AgingBuckets" where
  "aging_step dateTime referenceDate buckets invoice =
     (if status invoice = Paid then buckets
      else let daysPastDue = diffInDays dateTime referenceDate (dueDate invoice)
           in if js_le daysPastDue (Fin 30)
              then buckets\<lparr> b0_30 := b0_30 buckets + to_number (amountInclVat invoice) \<rparr>
              else if js_le daysPastDue (Fin 60)
              then buckets\<lparr> b31_60 := b31_60 buckets + to_number (amountInclVat invoice) \<rparr>
              else if js_le daysPastDue (Fin 90)
              then buckets\<lparr> b61_90 := b61_90 buckets + to_number (amountInclVat invoice) \<rparr>
              else buckets\<lparr> b90plus := b90plus buckets + to_number (amountInclVat invoice) \<rparr>)"

definition calculateAgingBuckets ::
  "(string \<Rightarrow> jsnum) \<Rightarrow> Invoice list nullable \<Rightarrow> jsnum \<Rightarrow> AgingBuckets" where
  "calculateAgingBuckets dateTime invoices referenceDate =
     (let safeInvoices = nullish invoices []
      in foldl (aging_step dateTime referenceDate)
           \<lparr> b0_30 = Fin 0, b31_60 = Fin 0, b61_90 = Fin 0, b90plus = Fin 0 \<rparr>
           safeInvoices)"

subsection \<open>Fixtures of the unit tests (billingCalculations.test.ts)\<close>

text \<open>\<open>buildInvoice\<close> with no overrides\<close>

definition buildInvoice :: Invoice where
  "buildInvoice =
     \<lparr> invoiceNumber = ''INV-000'', postingDate = ''2026-01-01'', amount = Val (Fin 1000),
       amountInclVat = Val (Fin 1250), dueDate = ''2026-01-15'', status = Unpaid,
       invoicePdf = [], billingDataExcel = [] \<rparr>"


text \<open>The invoices of the test of \<open>calculateAgingBuckets\<close>, due 7, 45, 73 and 123 days
  before the reference date 2026-02-01, and a paid one.\<close>

definition aging_fixture :: "Invoice list" where
  "aging_fixture =
     [buildInvoice\<lparr> invoiceNumber := ''0-15'', dueDate := ''2026-01-25'',
                     amountInclVat := Val (Fin 100), status := Unpaid \<rparr>,
      buildInvoice\<lparr> invoiceNumber := ''45'', dueDate := ''2025-12-18'',
                     amountInclVat := Val (Fin 200), status := Overdue \<rparr>,
      buildInvoice\<lparr> invoiceNumber := ''75'', dueDate := ''2025-11-20'',
                     amountInclVat := Val (Fin 300), status := Overdue \<rparr>,
      buildInvoice\<lparr> invoiceNumber := ''120'', dueDate := ''2025-10-01'',
                     amountInclVat := Val (Fin 400), status := Overdue \<rparr>,
      buildInvoice\<lparr> invoiceNumber := ''paid'', status := Paid,
                     amountInclVat := Val (Fin 999) \<rparr>]"

text \<open>The time values (milliseconds since 1970-01-01T00:00Z) of the due dates of
  \<open>aging_fixture\<close>; any other string counts as an invalid date.\<close>

definition fixture_times :: "string \<Rightarrow> jsnum" where
  "fixture_times s =
     (case map_of [(''2026-01-25'', 1769299200000), (''2025-12-18'', 1766016000000),
                   (''2025-11-20'', 1763596800000), (''2025-10-01'', 1759276800000),
                   (''2026-01-15'', 1768435200000)] s of
        Some t \<Rightarrow> Fin t | None \<Rightarrow> NaN)"

section \<open>Strings of the runtime\<close>

text \<open>
  White space as \<open>\s\<close> and \<open>trim\<close> see it, within ASCII: tab, line feed, vertical tab,
  form feed, carriage return and space.
\<close>

definition is_space :: "char \<Rightarrow> bool" where
  "is_space c = ((of_char c :: nat) \<in> {9, 10, 11, 12, 13, 32})"

text \<open>\<open>toLowerCase\<close>, within ASCII: the letters A to Z move up by 32.\<close>

definition lower_char :: "char \<Rightarrow> char" where
  "lower_char c =
     (if 65 \<le> (of_char c :: nat) \<and> (of_char c :: nat) \<le> 90
      then char_of ((of_char c :: nat) + 32) else c)"

definition toLowerCase :: "string \<Rightarrow> string" where
  "toLowerCase s = map lower_char s"

definition trim :: "string \<Rightarrow> string" where
  "trim s = rev (dropWhile is_space (rev (dropWhile is_space s)))"

text \<open>\<open>hay.includes(needle)\<close>\<close>

fun starts_with :: "string \<Rightarrow> string \<Rightarrow> bool" where
  "starts_with hay [] = True"
| "starts_with [] (n # ns) = False"
| "starts_with (h # hs) (n # ns) = (h = n \<and> starts_with hs ns)"

fun str_includes :: "string \<Rightarrow> string \<Rightarrow> bool" where
  "str_includes [] needle = (needle = [])"
| "str_includes (h # hs) needle = (starts_with (h # hs) needle \<or> str_includes hs needle)"

text \<open>\<open>s.replace(/\s+/g, " ")\<close>: every maximal run of white space becomes one space.\<close>

function squash_spaces :: "string \<Rightarrow> string" where
  "squash_spaces [] = []"
| "squash_spaces (c # cs) =
     (if is_space c then CHR '' '' # squash_spaces (dropWhile is_space cs)
      else c # squash_spaces cs)"
  by pat_completeness auto
termination
  by (relation "measure length") (simp_all add: length_dropWhile_le le_imp_less_Suc)

section \<open>Product labels (src/utils/billingCalculations.ts)\<close>

text \<open>
  \<open>stripNcePrefix\<close>: \<open>label.replace(/^\(\s*NCE\s*\)\s*/i, "")\<close>. The pattern is anchored at
  the start; each \<open>\s*\<close> is followed by a character that is not white space, so the
  match, when there is one, is unique. \<open>match_nce\<close> gives what follows the match.
\<close>

definition match_nce :: "string \<Rightarrow> string option" where
  "match_nce label =
     (case label of
        [] \<Rightarrow> None
      | c # r \<Rightarrow>
          if c \<noteq> CHR ''('' then None
          else let r1 = dropWhile is_space r in
            if toLowerCase (take 3 r1) \<noteq> ''nce'' then None
            else (case dropWhile is_space (drop 3 r1) of
                    [] \<Rightarrow> None
                  | d # r3 \<Rightarrow> if d = CHR '')'' then Some (dropWhile is_space r3) else None))"

definition stripNcePrefix :: "string \<Rightarrow> string" where
  "stripNcePrefix label = (case match_nce label of None \<Rightarrow> label | Some rest \<Rightarrow> rest)"

definition formatProductLabel :: "string \<Rightarrow> string" where
  "formatProductLabel label =
     (let trimmed = trim label;
          withoutPrefix = trim (stripNcePrefix trimmed)
      in if length withoutPrefix > 0 then withoutPrefix else trimmed)"

definition normalizeLabel :: "string \<Rightarrow> string" where
  "normalizeLabel label = toLowerCase (trim (squash_spaces (formatProductLabel label)))"

definition identifyVendorFromProduct :: "string \<Rightarrow> string nullable" where
  "identifyVendorFromProduct productLabel =
     (let normalized = toLowerCase productLabel in
      if str_includes normalized ''exclaimer'' then Val ''Exclaimer''
      else if str_includes normalized ''keepit'' then Val ''Keepit''
      else if str_includes normalized ''adobe'' then Val ''Adobe''
      else if str_includes normalized ''microsoft'' then Val ''Microsoft''
      else Undefined)"

definition shouldUseRetailAmount :: "string \<Rightarrow> bool" where
  "shouldUseRetailAmount vendorName' =
     (let normalized = toLowerCase vendorName' in
      str_includes normalized ''keepit'' \<or> str_includes normalized ''adobe''
        \<or> str_includes normalized ''microsoft'')"

section \<open>Discount store\<close>



text \<open>\<open>makeProductKey\<close>, the same text in src/hooks/useTenantDiscounts.ts, in the hook
  backed by the service, and in the service.\<close>

definition makeProductKey :: "string nullable \<Rightarrow> string nullable \<Rightarrow> string" where
  "makeProductKey vendorName' productName =
     toLowerCase (nullish vendorName' ''vendor'' @ ''::'' @ nullish productName ''product'')"

text \<open>\<open>!tenantId\<close>: \<open>undefined\<close>, \<open>null\<close> and the empty string are falsy.\<close>

fun falsy :: "string nullable \<Rightarrow> bool" where
  "falsy (Val s) = (s = [])"
| "falsy Undefined = True"
| "falsy Null = True"









text \<open>The service (the Express application) trims the names of the request body before
  it derives the key: \<open>parseBody\<close>, then \<open>makeProductKey\<close>.\<close>

definition service_product_key :: "string \<Rightarrow> string \<Rightarrow> string" where
  "service_product_key vendorName' productName =
     makeProductKey (Val (trim vendorName')) (Val (trim productName))"

section \<open>Vendor aggregation (src/utils/billingCalculations.ts)\<close>

subsection \<open>Input and output types (src/types/invoice.ts)\<close>

text \<open>\<open>InvoiceTenantEntry\<close>. The fields of the three records below carry a prefix, as the
  sources use the same field names in several types.\<close>

record InvoiceTenantEntry =
  ent_productId :: string
  ent_skuId :: string
  ent_description :: "string nullable"
  ent_nickname :: string
  ent_licensQuantity :: "jsnum nullable"
  ent_invoicingType :: "string nullable"
  ent_startDate :: "string nullable"
  ent_endDate :: "string nullable"
  ent_quantity :: "jsnum nullable"
  ent_days :: "jsnum nullable"
  ent_unitPrice :: "jsnum nullable"
  ent_retailUnitPrice :: "jsnum nullable"
  ent_amount :: "jsnum nullable"
  ent_retailAmount :: "jsnum nullable"
  ent_billing :: "string nullable"
  ent_commitment :: "string nullable"
  ent_billingStartDate :: "string nullable"
  ent_billingEndDate :: "string nullable"
  ent_commitmentStartDate :: "string nullable"
  ent_commitmentEndDate :: "string nullable"

text \<open>\<open>InvoiceSubscriptionBreakdown\<close>\<close>

record InvoiceSubscriptionBreakdown =
  sub_id :: string
  sub_description :: string
  sub_nickname :: string
  sub_licensQuantity :: "jsnum nullable"
  sub_amount :: "jsnum nullable"
  sub_retailAmount :: "jsnum nullable"
  sub_billingTypeId :: "string nullable"
  sub_billingTypeDescription :: "string nullable"
  sub_entries :: "InvoiceTenantEntry list nullable"

text \<open>\<open>AggregatedVendor\<close>, its products and their details\<close>

record AggregatedDetail =
  det_label :: string
  det_billing :: "string nullable"
  det_commitment :: "string nullable"
  det_licenses :: jsnum
  det_amount :: jsnum

record AggregatedProduct =
  displayName :: string
  licenses :: jsnum
  prod_amount :: jsnum
  costAmount :: jsnum
  prod_billing :: "string nullable"
  prod_commitment :: "string nullable"
  details :: "AggregatedDetail list"

record AggregatedVendor =
  vendorName :: string
  totalLicenses :: jsnum
  totalAmount :: jsnum
  products :: "AggregatedProduct list"

text \<open>
  The values of \<open>vendorMap\<close> and of \<open>productsMap\<close>. A \<open>Map\<close> is an association list in the
  order of insertion: \<open>get\<close> is \<open>map_of\<close>, \<open>set\<close> is \<open>AList.update\<close>, which keeps the place
  of a key that is there and appends a new one. A \<open>Set\<close> of strings is the list of its
  members in the order of insertion.
\<close>

record product_entry =
  pe_displayName :: string
  pe_licenses :: jsnum
  pe_amount :: jsnum
  pe_costAmount :: jsnum
  billingValues :: "string list"
  commitmentValues :: "string list"
  detailsMap :: "(string \<times> AggregatedDetail) list"

record vendor_entry =
  ve_vendorName :: string
  ve_totalLicenses :: jsnum
  ve_totalAmount :: jsnum
  productsMap :: "(string \<times> product_entry) list"

subsection \<open>Operators of the language\<close>

text \<open>\<open>a || b\<close> on strings: the empty string is falsy.\<close>

definition str_or :: "string \<Rightarrow> string \<Rightarrow> string" where
  "str_or a b = (if a = [] then b else a)"

text \<open>\<open>a || b\<close> where \<open>a\<close> may be missing\<close>

fun nullable_or :: "string nullable \<Rightarrow> string \<Rightarrow> string" where
  "nullable_or (Val a) b = (if a = [] then b else a)"
| "nullable_or Undefined b = b"
| "nullable_or Null b = b"

text \<open>\<open>a?.trim()\<close>\<close>

fun optional_trim :: "string nullable \<Rightarrow> string nullable" where
  "optional_trim (Val a) = Val (trim a)"
| "optional_trim Undefined = Undefined"
| "optional_trim Null = Undefined"

text \<open>\<open>a || undefined\<close>\<close>

fun or_undefined :: "string nullable \<Rightarrow> string nullable" where
  "or_undefined (Val a) = (if a = [] then Undefined else Val a)"
| "or_undefined Undefined = Undefined"
| "or_undefined Null = Undefined"

text \<open>\<open>set.add(x)\<close>\<close>

definition set_add :: "string \<Rightarrow> string list \<Rightarrow> string list" where
  "set_add x xs = (if x \<in> set xs then xs else xs @ [x])"

text \<open>
  \<open>xs.sort(compare)\<close>. The sort of the language is stable, and for a comparator that is a
  consistent ordering its result is the one of insertion sort; for any other comparator
  the language leaves the order open.
\<close>

fun insert_sorted :: "('a \<Rightarrow> 'a \<Rightarrow> int) \<Rightarrow> 'a \<Rightarrow> 'a list \<Rightarrow> 'a list" where
  "insert_sorted compare x [] = [x]"
| "insert_sorted compare x (y # ys) =
     (if compare x y \<le> 0 then x # y # ys else y # insert_sorted compare x ys)"

definition js_sort :: "('a \<Rightarrow> 'a \<Rightarrow> int) \<Rightarrow> 'a list \<Rightarrow> 'a list" where
  "js_sort compare xs = foldr (insert_sorted compare) xs []"

subsection \<open>The amount of a subscription\<close>

text \<open>\<open>getAmountForVendor\<close>; \<open>typeof x === "number"\<close> holds exactly for \<open>Val x\<close>.\<close>

definition getAmountForVendor :: "InvoiceSubscriptionBreakdown \<Rightarrow> string \<Rightarrow> jsnum" where
  "getAmountForVendor sub vendorName' =
     (let prefersRetail = shouldUseRetailAmount vendorName';
          hasRetail = is_number (sub_retailAmount sub);
          hasAmount = is_number (sub_amount sub)
      in if prefersRetail
         then (if hasRetail then to_number (sub_retailAmount sub)
               else if hasAmount then to_number (sub_amount sub)
               else Fin 0)
         else if hasAmount then to_number (sub_amount sub)
         else if hasRetail then to_number (sub_retailAmount sub)
         else Fin 0)"

subsection \<open>What the loop reads from one subscription\<close>

text \<open>The constants \<open>vendorName\<close>, \<open>rawProductLabel\<close>, \<open>productLabel\<close>, \<open>productKey\<close>,
  \<open>effectiveAmount\<close> and \<open>licenses\<close> of the loop body, as functions of the subscription.\<close>

definition vendorName_of :: "InvoiceSubscriptionBreakdown \<Rightarrow> string" where
  "vendorName_of sub =
     nullable_or (optional_trim (sub_billingTypeDescription sub))
       (nullable_or
          (identifyVendorFromProduct
             (str_or (sub_description sub) (str_or (sub_nickname sub) ''Product'')))
          (str_or (sub_nickname sub) (str_or (sub_description sub) ''Product'')))"

definition rawProductLabel_of :: "InvoiceSubscriptionBreakdown \<Rightarrow> string" where
  "rawProductLabel_of sub =
     trim (str_or (sub_description sub) (str_or (sub_nickname sub) ''Line item''))"

definition productLabel_of :: "InvoiceSubscriptionBreakdown \<Rightarrow> string" where
  "productLabel_of sub = formatProductLabel (rawProductLabel_of sub)"

definition productKey_of :: "InvoiceSubscriptionBreakdown \<Rightarrow> string" where
  "productKey_of sub = normalizeLabel (productLabel_of sub)"

definition effectiveAmount_of :: "InvoiceSubscriptionBreakdown \<Rightarrow> jsnum" where
  "effectiveAmount_of sub = getAmountForVendor sub (vendorName_of sub)"

definition licenses_of :: "InvoiceSubscriptionBreakdown \<Rightarrow> jsnum" where
  "licenses_of sub = nullish (sub_licensQuantity sub) (Fin 0)"

subsection \<open>The loop over the entries of a subscription\<close>

text \<open>The state of the inner \<open>forEach\<close>: the product entry and \<open>subscriptionEntryAmount\<close>.\<close>

definition entry_step ::
  "string \<Rightarrow> product_entry \<times> jsnum \<Rightarrow> InvoiceTenantEntry \<Rightarrow> product_entry \<times> jsnum" where
  "entry_step productLabel st entry =
     (let productEntry = fst st;
          subscriptionEntryAmount = snd st;
          productEntry1 =
            (if \<not> falsy (ent_billing entry)
             then productEntry\<lparr> billingValues :=
                    set_add (nullish (ent_billing entry) []) (billingValues productEntry) \<rparr>
             else productEntry);
          productEntry2 =
            (if \<not> falsy (ent_commitment entry)
             then productEntry1\<lparr> commitmentValues :=
                    set_add (nullish (ent_commitment entry) []) (commitmentValues productEntry1) \<rparr>
             else productEntry1);
          detailLabel = nullable_or (optional_trim (ent_description entry)) productLabel;
          detailKey = detailLabel @ ''|'' @ nullish (ent_billing entry) []
                        @ ''|'' @ nullish (ent_commitment entry) [];
          detailEntry =
            (case map_of (detailsMap productEntry2) detailKey of
               Some d \<Rightarrow> d
             | None \<Rightarrow> \<lparr> det_label = detailLabel,
                         det_billing = or_undefined (ent_billing entry),
                         det_commitment = or_undefined (ent_commitment entry),
                         det_licenses = Fin 0, det_amount = Fin 0 \<rparr>);
          entryLicenses =
            nullish (nullish_chain (ent_licensQuantity entry)
                       (nullish_chain (ent_quantity entry) (ent_days entry))) (Fin 0);
          entryAmount = (if is_number (ent_amount entry) then to_number (ent_amount entry) else Fin 0);
          detailEntry1 = detailEntry\<lparr> det_licenses := det_licenses detailEntry + entryLicenses,
                                      det_amount := det_amount detailEntry + entryAmount \<rparr>
      in (productEntry2\<lparr> detailsMap :=
            AList.update detailKey detailEntry1 (detailsMap productEntry2) \<rparr>,
          subscriptionEntryAmount + entryAmount))"

subsection \<open>The loop over the subscriptions\<close>

text \<open>The product entry after one subscription, given the entry the map had for its key
  (\<open>None\<close> when it had none).\<close>

definition next_product_entry ::
  "InvoiceSubscriptionBreakdown \<Rightarrow> product_entry option \<Rightarrow> product_entry" where
  "next_product_entry sub found =
     (let productLabel = productLabel_of sub;
          effectiveAmount = effectiveAmount_of sub;
          licenses' = licenses_of sub;
          productEntry =
            (case found of
               Some e \<Rightarrow> e
             | None \<Rightarrow> \<lparr> pe_displayName = productLabel, pe_licenses = Fin 0, pe_amount = Fin 0,
                         pe_costAmount = Fin 0, billingValues = [], commitmentValues = [],
                         detailsMap = [] \<rparr>);
          productEntry1 = productEntry\<lparr> pe_licenses := pe_licenses productEntry + licenses',
                                        pe_amount := pe_amount productEntry + effectiveAmount \<rparr>;
          subCostAmount = (if is_number (sub_amount sub) then to_number (sub_amount sub) else Fin 0);
          st = foldl (entry_step productLabel) (productEntry1, Fin 0) (nullish (sub_entries sub) []);
          productEntry2 = fst st;
          subscriptionEntryAmount = snd st;
          costContribution =
            (if js_gt subscriptionEntryAmount (Fin 0) then subscriptionEntryAmount else subCostAmount)
      in productEntry2\<lparr> pe_costAmount := pe_costAmount productEntry2 + costContribution \<rparr>)"

text \<open>The vendor entry after one subscription, given the entry the map had for its
  vendor.\<close>

definition next_vendor_entry ::
  "InvoiceSubscriptionBreakdown \<Rightarrow> vendor_entry option \<Rightarrow> vendor_entry" where
  "next_vendor_entry sub found =
     (let vendorName' = vendorName_of sub;
          productKey = productKey_of sub;
          vendorEntry =
            (case found of
               Some e \<Rightarrow> e
             | None \<Rightarrow> \<lparr> ve_vendorName = vendorName', ve_totalLicenses = Fin 0,
                         ve_totalAmount = Fin 0, productsMap = [] \<rparr>);
          vendorEntry1 = vendorEntry\<lparr> ve_totalLicenses := ve_totalLicenses vendorEntry + licenses_of sub,
                                      ve_totalAmount := ve_totalAmount vendorEntry + effectiveAmount_of sub \<rparr>;
          productEntry = next_product_entry sub (map_of (productsMap vendorEntry1) productKey)
      in vendorEntry1\<lparr> productsMap := AList.update productKey productEntry (productsMap vendorEntry1) \<rparr>)"

text \<open>The body of \<open>(subscriptions ?? []).forEach\<close>\<close>

definition sub_step ::
  "(string \<times> vendor_entry) list \<Rightarrow> InvoiceSubscriptionBreakdown \<Rightarrow> (string \<times> vendor_entry) list" where
  "sub_step vendorMap sub =
     AList.update (vendorName_of sub)
       (next_vendor_entry sub (map_of vendorMap (vendorName_of sub))) vendorMap"

subsection \<open>The result\<close>

text \<open>\<open>resolveLabel\<close>: nothing for an empty set, the one trimmed value when all agree,
  \<open>"Mixed"\<close> otherwise.\<close>

definition resolveLabel :: "string list \<Rightarrow> string nullable" where
  "resolveLabel values =
     (if length values = 0 then Undefined
      else let normalized = map trim values;
               unique = foldl (\<lambda>acc v. set_add v acc) [] normalized
           in (case unique of [u] \<Rightarrow> Val u | _ \<Rightarrow> Val ''Mixed''))"

definition finish_product :: "(string \<Rightarrow> string \<Rightarrow> int) \<Rightarrow> product_entry \<Rightarrow> AggregatedProduct" where
  "finish_product localeCompare product =
     \<lparr> displayName = pe_displayName product,
       licenses = pe_licenses product,
       prod_amount = pe_amount product,
       costAmount = pe_costAmount product,
       prod_billing = resolveLabel (billingValues product),
       prod_commitment = resolveLabel (commitmentValues product),
       details = js_sort (\<lambda>a b. localeCompare (det_label a) (det_label b))
                   (map snd (detailsMap product)) \<rparr>"

definition finish_vendor :: "(string \<Rightarrow> string \<Rightarrow> int) \<Rightarrow> vendor_entry \<Rightarrow> AggregatedVendor" where
  "finish_vendor localeCompare vendor =
     \<lparr> vendorName = ve_vendorName vendor,
       totalLicenses = ve_totalLicenses vendor,
       totalAmount = ve_totalAmount vendor,
       products = js_sort (\<lambda>a b. localeCompare (displayName a) (displayName b))
                    (map (finish_product localeCompare) (map snd (productsMap vendor))) \<rparr>"

text \<open>
  \<open>aggregateVendorsFromSubscriptions\<close>. \<open>a.localeCompare(b, "da")\<close> is the collation of the
  runtime, which is not code of this repository: it is the parameter \<open>localeCompare\<close>.
\<close>

definition aggregateVendorsFromSubscriptions ::
  "(string \<Rightarrow> string \<Rightarrow> int) \<Rightarrow> InvoiceSubscriptionBreakdown list nullable \<Rightarrow> AggregatedVendor list" where
  "aggregateVendorsFromSubscriptions localeCompare subscriptions =
     (let vendorMap = foldl sub_step [] (nullish subscriptions [])
      in js_sort (\<lambda>a b. localeCompare (vendorName a) (vendorName b))
           (map (finish_vendor localeCompare) (map snd vendorMap)))"


text \<open>What a result shows: for each vendor its name and totals and, for each of its
  products, the display name, licenses and amount; the amounts alone; the names alone.\<close>

definition result_rows ::
  "AggregatedVendor list \<Rightarrow> (string \<times> jsnum \<times> jsnum \<times> (string \<times> jsnum \<times> jsnum) list) list" where
  "result_rows vendors =
     map (\<lambda>v. (vendorName v, totalLicenses v, totalAmount v,
               map (\<lambda>p. (displayName p, licenses p, prod_amount p)) (products v))) vendors"

definition result_amounts :: "AggregatedVendor list \<Rightarrow> (string \<times> jsnum list) list" where
  "result_amounts vendors = map (\<lambda>v. (vendorName v, map prod_amount (products v))) vendors"

definition result_names :: "AggregatedVendor list \<Rightarrow> string list list" where
  "result_names vendors = map (\<lambda>v. map displayName (products v)) vendors"

subsection \<open>Invariant of the loop\<close>



text \<open>The product entry that the state holds for a vendor and a grouping key.\<close>

definition bucket :: "(string \<times> vendor_entry) list \<Rightarrow> string \<Rightarrow> string \<Rightarrow> product_entry option" where
  "bucket vm v k =
     (case map_of vm v of None \<Rightarrow> None | Some ve \<Rightarrow> map_of (productsMap ve) k)"

text \<open>Keys are not repeated, every entry carries the name it is filed under, and the
  grouping key of a product entry is the normal form of its display name.\<close>

definition well_keyed :: "(string \<times> vendor_entry) list \<Rightarrow> bool" where
  "well_keyed vm =
     (distinct (map fst vm) \<and>
      list_all (\<lambda>kv. ve_vendorName (snd kv) = fst kv \<and>
                  distinct (map fst (productsMap (snd kv))) \<and>
                  list_all (\<lambda>kp. normalizeLabel (pe_displayName (snd kp)) = fst kp)
                    (productsMap (snd kv))) vm)"

subsection \<open>The rules of the specification\<close>

text \<open>
  The amount basis as the specification words it: for a vendor whose resolved name
  contains "keepit", "adobe" or "microsoft" in any letter case, the retail amount when it is
  a number, else the cost amount when that is a number, else 0; for every other vendor the
  cost amount, else the retail amount, else 0.
\<close>

definition amount_by_vendor_rule :: "InvoiceSubscriptionBreakdown \<Rightarrow> jsnum" where
  "amount_by_vendor_rule sub =
     (if str_includes (toLowerCase (vendorName_of sub)) ''keepit''
         \<or> str_includes (toLowerCase (vendorName_of sub)) ''adobe''
         \<or> str_includes (toLowerCase (vendorName_of sub)) ''microsoft''
      then (case sub_retailAmount sub of
              Val retail \<Rightarrow> retail
            | _ \<Rightarrow> (case sub_amount sub of Val cost \<Rightarrow> cost | _ \<Rightarrow> Fin 0))
      else (case sub_amount sub of
              Val cost \<Rightarrow> cost
            | _ \<Rightarrow> (case sub_retailAmount sub of Val retail \<Rightarrow> retail | _ \<Rightarrow> Fin 0)))"

text \<open>
  Labels that differ only by a leading marker, by runs of white space or by letter case:
  the label without its leading marker (\<open>label_remainder\<close>), then with white space squashed
  and in lower case (\<open>label_core\<close>). A label is \<open>simple\<close> when its remainder is not empty
  and does not begin with a further marker.
\<close>

definition label_remainder :: "string \<Rightarrow> string" where
  "label_remainder l = trim (stripNcePrefix (trim l))"

definition label_core :: "string \<Rightarrow> string" where
  "label_core l = toLowerCase (trim (squash_spaces (label_remainder l)))"

definition simple_label :: "string \<Rightarrow> bool" where
  "simple_label l = (label_remainder l \<noteq> [] \<and> match_nce (label_remainder l) = None)"




subsection \<open>Fixtures of the unit tests of the aggregation\<close>

text \<open>A subscription as the tests write them, with no entries.\<close>

definition test_subscription ::
  "string \<Rightarrow> string \<Rightarrow> string \<Rightarrow> rat \<Rightarrow> rat \<Rightarrow> rat \<Rightarrow> string nullable
     \<Rightarrow> InvoiceSubscriptionBreakdown" where
  "test_subscription ident description nickname quantity cost retail billingType =
     \<lparr> sub_id = ident, sub_description = description, sub_nickname = nickname,
       sub_licensQuantity = Val (Fin quantity), sub_amount = Val (Fin cost),
       sub_retailAmount = Val (Fin retail), sub_billingTypeId = Undefined,
       sub_billingTypeDescription = billingType, sub_entries = Val [] \<rparr>"

text \<open>A comparator for the examples, in the place of the collation of the runtime: the
  order of the code units.\<close>

definition compare_code_units :: "string \<Rightarrow> string \<Rightarrow> int" where
  "compare_code_units a b = (if str_lt a b then - 1 else if str_lt b a then 1 else 0)"



text \<open>"prefers retail amounts for Keepit, Adobe, and Microsoft vendors"\<close>

definition retail_fixture :: "InvoiceSubscriptionBreakdown list" where
  "retail_fixture =
     [test_subscription ''keepit-1'' ''Keepit Backup'' ''Keepit Backup'' 2 50 120 (Val ''Keepit''),
      test_subscription ''keepit-2'' ''Keepit Backup'' ''Keepit Backup'' 1 25 80 (Val ''Keepit Cloud''),
      test_subscription ''other'' ''Other Product'' ''Other Product'' 1 10 25 (Val ''Contoso''),
      test_subscription ''adobe-1'' ''Adobe Creative Cloud'' ''Adobe Creative Cloud'' 5 200 350 (Val ''Adobe''),
      test_subscription ''m365'' ''Microsoft 365 Business'' ''M365 Biz'' 10 300 450 (Val ''Microsoft'')]"

section \<open>Response mapper (src/hooks/useInvoiceDetail.ts)\<close>

subsection \<open>The raw payload\<close>

text \<open>\<open>TenantEntryApi\<close>, \<open>TenantConnectorApi\<close> and the types of a subscription, a tenant
  and a line inside \<open>InvoiceDetailApiResponse\<close>; the fields carry a prefix.\<close>

record TenantEntryApi =
  ea_productId :: "string nullable"
  ea_skuId :: "string nullable"
  ea_description :: "string nullable"
  ea_nickname :: "string nullable"
  ea_licensQuantity :: "jsnum nullable"
  ea_invoicingType :: "string nullable"
  ea_startDate :: "string nullable"
  ea_endDate :: "string nullable"
  ea_quantity :: "jsnum nullable"
  ea_days :: "jsnum nullable"
  ea_unitPrice :: "jsnum nullable"
  ea_retailUnitPrice :: "jsnum nullable"
  ea_amount :: "jsnum nullable"
  ea_retailAmount :: "jsnum nullable"
  ea_billing :: "string nullable"
  ea_commitment :: "string nullable"
  ea_billingStartDate :: "string nullable"
  ea_billingEndDate :: "string nullable"
  ea_commitmentStartDate :: "string nullable"
  ea_commitmentEndDate :: "string nullable"

record TenantConnectorApi =
  ca_id :: "string nullable"
  ca_description :: "string nullable"
  ca_quantity :: "jsnum nullable"
  ca_unitPrice :: "jsnum nullable"
  ca_retailUnitPrice :: "jsnum nullable"
  ca_amount :: "jsnum nullable"
  ca_retailAmount :: "jsnum nullable"

record SubscriptionApi =
  sa_id :: string
  sa_description :: string
  sa_nickname :: string
  sa_licensQuantity :: "jsnum nullable"
  sa_birthday :: string
  sa_amount :: "jsnum nullable"
  sa_retailAmount :: "jsnum nullable"
  sa_promotionPercent :: "jsnum nullable"
  sa_entries :: "TenantEntryApi list nullable"

record TenantApi =
  ta_id :: string
  ta_name :: "string nullable"
  ta_domain :: string
  ta_amount :: "jsnum nullable"
  ta_retailAmount :: "jsnum nullable"
  ta_customerId :: string
  ta_customerName :: string
  ta_customerVatId :: string
  ta_customerReference :: string
  ta_productId :: "string nullable"
  ta_productDescription :: "string nullable"
  ta_quantity :: "jsnum nullable"
  ta_unitPrice :: "jsnum nullable"
  ta_retailUnitPrice :: "jsnum nullable"
  ta_entries :: "TenantEntryApi list nullable"
  ta_connectors :: "TenantConnectorApi list nullable"
  ta_subscriptions :: "SubscriptionApi list nullable"

record BillingDataApi =
  bd_amount :: "jsnum nullable"
  bd_retailAmount :: "jsnum nullable"
  bd_tenants :: "TenantApi list nullable"

record LineApi =
  la_lineNo :: jsnum
  la_description :: "string nullable"
  la_lineAmount :: jsnum
  la_billingTypeId :: "string nullable"
  la_billingTypeDescription :: "string nullable"
  la_billingDataExcel :: "string nullable"
  la_billingData :: "BillingDataApi nullable"

text \<open>\<open>InvoiceTenantBreakdown\<close> (src/types/invoice.ts)\<close>

record InvoiceTenantBreakdown =
  tb_id :: string
  tb_name :: "string nullable"
  tb_domain :: string
  tb_amount :: jsnum
  tb_retailAmount :: jsnum
  tb_customerName :: string
  tb_customerVatId :: string
  tb_customerReference :: string
  tb_subscriptions :: "InvoiceSubscriptionBreakdown list"

subsection \<open>Operators of the language\<close>

text \<open>A natural number in a template literal: its decimal digits.\<close>

fun show_nat :: "nat \<Rightarrow> string" where
  "show_nat n =
     (if n < 10 then [char_of (48 + n)]
      else show_nat (n div 10) @ [char_of (48 + n mod 10)])"

text \<open>\<open>a || b\<close> on numbers: 0 and \<open>NaN\<close> are falsy.\<close>

fun num_or :: "jsnum \<Rightarrow> jsnum \<Rightarrow> jsnum" where
  "num_or (Fin a) b = (if a = 0 then b else Fin a)"
| "num_or NaN b = b"

text \<open>\<open>x !== undefined\<close>\<close>

fun is_defined :: "'a nullable \<Rightarrow> bool" where
  "is_defined Undefined = False"
| "is_defined Null = True"
| "is_defined (Val x) = True"

subsection \<open>Entries\<close>

text \<open>\<open>buildEntry\<close>\<close>

definition buildEntry :: "TenantEntryApi \<Rightarrow> string \<Rightarrow> string \<Rightarrow> InvoiceTenantEntry" where
  "buildEntry entry fallbackId fallbackDescription =
     \<lparr> ent_productId = nullish (ea_productId entry) fallbackId,
       ent_skuId = nullish (ea_skuId entry) fallbackId,
       ent_description = Val (nullish (ea_description entry) fallbackDescription),
       ent_nickname =
         nullish (nullish_chain (ea_nickname entry) (ea_description entry)) fallbackDescription,
       ent_licensQuantity =
         Val (nullish (nullish_chain (ea_licensQuantity entry) (ea_quantity entry)) (Fin 0)),
       ent_invoicingType = ea_invoicingType entry,
       ent_startDate = ea_startDate entry,
       ent_endDate = ea_endDate entry,
       ent_quantity = ea_quantity entry,
       ent_days = ea_days entry,
       ent_unitPrice = ea_unitPrice entry,
       ent_retailUnitPrice = ea_retailUnitPrice entry,
       ent_amount = Val (nullish (ea_amount entry) (Fin 0)),
       ent_retailAmount = Val (nullish (ea_retailAmount entry) (Fin 0)),
       ent_billing = ea_billing entry,
       ent_commitment = ea_commitment entry,
       ent_billingStartDate = ea_billingStartDate entry,
       ent_billingEndDate = ea_billingEndDate entry,
       ent_commitmentStartDate = ea_commitmentStartDate entry,
       ent_commitmentEndDate = ea_commitmentEndDate entry \<rparr>"

text \<open>An entry object that sets no field, for the object literals of the mapper.\<close>

definition empty_entry :: TenantEntryApi where
  "empty_entry =
     \<lparr> ea_productId = Undefined, ea_skuId = Undefined, ea_description = Undefined,
       ea_nickname = Undefined, ea_licensQuantity = Undefined, ea_invoicingType = Undefined,
       ea_startDate = Undefined, ea_endDate = Undefined, ea_quantity = Undefined,
       ea_days = Undefined, ea_unitPrice = Undefined, ea_retailUnitPrice = Undefined,
       ea_amount = Undefined, ea_retailAmount = Undefined, ea_billing = Undefined,
       ea_commitment = Undefined, ea_billingStartDate = Undefined,
       ea_billingEndDate = Undefined, ea_commitmentStartDate = Undefined,
       ea_commitmentEndDate = Undefined \<rparr>"

text \<open>\<open>mapSubscriptionEntries\<close>; \<open>subDescription\<close> is read through \<open>??\<close>.\<close>

definition mapSubscriptionEntries ::
  "TenantEntryApi list nullable \<Rightarrow> string \<Rightarrow> string nullable \<Rightarrow> InvoiceTenantEntry list" where
  "mapSubscriptionEntries subEntries subId subDescription =
     map (\<lambda>(idx, entry).
            buildEntry entry
              (nullish (nullish_chain (ea_productId entry) (ea_skuId entry))
                 (subId @ ''-entry-'' @ show_nat idx))
              (nullish (nullish_chain (ea_description entry)
                          (nullish_chain (ea_nickname entry) subDescription))
                 ''Line item''))
       (enumerate 0 (nullish subEntries []))"

text \<open>\<open>sumEntryLicenses\<close>\<close>

definition sumEntryLicenses :: "InvoiceTenantEntry list \<Rightarrow> jsnum" where
  "sumEntryLicenses entries' =
     foldl (\<lambda>acc entry.
              acc + nullish (nullish_chain (ent_licensQuantity entry) (ent_quantity entry)) (Fin 0))
       (Fin 0) entries'"

subsection \<open>The four sources of the subscriptions of a tenant\<close>

text \<open>The callback of \<open>tenant.subscriptions.map\<close>\<close>

definition subscription_from_api :: "LineApi \<Rightarrow> SubscriptionApi \<Rightarrow> InvoiceSubscriptionBreakdown" where
  "subscription_from_api line sub =
     (let entries' = mapSubscriptionEntries (sa_entries sub) (sa_id sub) (Val (sa_description sub));
          derivedLicenses = sumEntryLicenses entries';
          fallbackLicenses =
            num_or derivedLicenses
              (if length entries' > 0 then Fin (of_nat (length entries')) else Fin 0)
      in \<lparr> sub_id = sa_id sub,
            sub_description = sa_description sub,
            sub_nickname = sa_nickname sub,
            sub_licensQuantity = Val (nullish (sa_licensQuantity sub) fallbackLicenses),
            sub_amount = sa_amount sub,
            sub_retailAmount = sa_retailAmount sub,
            sub_billingTypeId = la_billingTypeId line,
            sub_billingTypeDescription = la_billingTypeDescription line,
            sub_entries = Val entries' \<rparr>)"

text \<open>The callback of \<open>(tenant.entries ?? []).map\<close>, which builds \<open>directEntries\<close>\<close>

definition subscription_from_entry ::
  "LineApi \<Rightarrow> TenantApi \<Rightarrow> nat \<times> TenantEntryApi \<Rightarrow> InvoiceSubscriptionBreakdown" where
  "subscription_from_entry line tenant ie =
     (let idx = fst ie; entry = snd ie;
          description =
            nullish (nullish_chain (ea_description entry)
                      (nullish_chain (ea_nickname entry)
                        (nullish_chain (ta_productDescription tenant)
                          (nullish_chain (la_description line) (la_billingTypeDescription line)))))
              ''Item'';
          fallbackId =
            nullish (nullish_chain (ea_productId entry) (ea_skuId entry))
              (ta_id tenant @ ''-entry-'' @ show_nat idx)
      in \<lparr> sub_id = fallbackId,
            sub_description = description,
            sub_nickname = nullish (ea_nickname entry) description,
            sub_licensQuantity =
              Val (nullish (nullish_chain (ea_licensQuantity entry) (ea_quantity entry)) (Fin 0)),
            sub_amount = Val (nullish (ea_amount entry) (Fin 0)),
            sub_retailAmount = Val (nullish (ea_retailAmount entry) (Fin 0)),
            sub_billingTypeId = la_billingTypeId line,
            sub_billingTypeDescription = la_billingTypeDescription line,
            sub_entries = Val [buildEntry entry fallbackId description] \<rparr>)"

text \<open>The callback of \<open>(tenant.connectors ?? []).map\<close>, which builds
  \<open>connectorSubscriptions\<close>. \<open>x ?? y ?? undefined\<close> is \<open>undefined\<close> when both are missing.\<close>

definition subscription_from_connector ::
  "LineApi \<Rightarrow> TenantApi \<Rightarrow> nat \<times> TenantConnectorApi \<Rightarrow> InvoiceSubscriptionBreakdown" where
  "subscription_from_connector line tenant ic =
     (let idx = fst ic; connector = snd ic;
          rawQuantity = nullish_chain (nullish_chain (ca_quantity connector) (ta_quantity tenant)) Undefined;
          rawUnitPrice = nullish_chain (nullish_chain (ca_unitPrice connector) (ta_unitPrice tenant)) Undefined;
          rawRetailUnitPrice =
            nullish_chain (nullish_chain (ca_retailUnitPrice connector) (ta_retailUnitPrice tenant)) Undefined;
          quantity = nullish rawQuantity (Fin 0);
          unitPrice = nullish rawUnitPrice (Fin 0);
          retailUnitPrice = nullish rawRetailUnitPrice (Fin 0);
          amount' =
            nullish (ca_amount connector)
              (if is_defined rawQuantity \<and> is_defined rawUnitPrice
               then js_times quantity unitPrice else Fin 0);
          retailAmount =
            nullish (ca_retailAmount connector)
              (if is_defined rawQuantity \<and> is_defined rawRetailUnitPrice
               then js_times quantity retailUnitPrice else Fin 0);
          description =
            nullish (nullish_chain (ca_description connector)
                      (nullish_chain (ta_productDescription tenant)
                        (nullish_chain (la_description line) (la_billingTypeDescription line))))
              ''Product'';
          fallbackId =
            nullish (nullish_chain (ca_id connector) (ta_productId tenant))
              (ta_id tenant @ ''-connector-'' @ show_nat idx);
          connectorEntry =
            empty_entry\<lparr> ea_productId := nullish_chain (ta_productId tenant) (ca_id connector),
                          ea_skuId := ca_id connector,
                          ea_description := Val description,
                          ea_nickname := Val description,
                          ea_licensQuantity := Val quantity,
                          ea_quantity := Val quantity,
                          ea_unitPrice := Val unitPrice,
                          ea_retailUnitPrice := Val retailUnitPrice,
                          ea_amount := Val amount',
                          ea_retailAmount := Val retailAmount \<rparr>
      in \<lparr> sub_id = fallbackId,
            sub_description = description,
            sub_nickname = description,
            sub_licensQuantity = Val quantity,
            sub_amount = Val amount',
            sub_retailAmount = Val retailAmount,
            sub_billingTypeId = la_billingTypeId line,
            sub_billingTypeDescription = la_billingTypeDescription line,
            sub_entries = Val [buildEntry connectorEntry fallbackId description] \<rparr>)"

text \<open>The single subscription made of the fields of the tenant itself\<close>

definition subscription_from_tenant :: "LineApi \<Rightarrow> TenantApi \<Rightarrow> InvoiceSubscriptionBreakdown" where
  "subscription_from_tenant line tenant =
     (let fallbackDescription =
            nullish (nullish_chain (ta_productDescription tenant)
                      (nullish_chain (la_description line)
                        (nullish_chain (la_billingTypeDescription line) (ta_name tenant))))
              ''Item'';
          fallbackId = nullish (ta_productId tenant) (ta_id tenant)
      in \<lparr> sub_id = fallbackId,
            sub_description = fallbackDescription,
            sub_nickname = fallbackDescription,
            sub_licensQuantity = Val (nullish (ta_quantity tenant) (Fin 0)),
            sub_amount = Val (nullish (ta_amount tenant) (Fin 0)),
            sub_retailAmount = Val (nullish (ta_retailAmount tenant) (Fin 0)),
            sub_billingTypeId = la_billingTypeId line,
            sub_billingTypeDescription = la_billingTypeDescription line,
            sub_entries =
              Val [buildEntry
                     (empty_entry\<lparr> ea_productId := ta_productId tenant,
                                   ea_description := Val fallbackDescription,
                                   ea_nickname := Val fallbackDescription,
                                   ea_licensQuantity := ta_quantity tenant,
                                   ea_quantity := ta_quantity tenant,
                                   ea_unitPrice := ta_unitPrice tenant,
                                   ea_retailUnitPrice := ta_retailUnitPrice tenant,
                                   ea_amount := ta_amount tenant,
                                   ea_retailAmount := ta_retailAmount tenant \<rparr>)
                     fallbackId fallbackDescription] \<rparr>)"

subsection \<open>The fallback chain\<close>

text \<open>\<open>mapSubscriptions\<close>, for a tenant of a line\<close>

definition mapSubscriptions :: "LineApi \<Rightarrow> TenantApi \<Rightarrow> InvoiceSubscriptionBreakdown list" where
  "mapSubscriptions line tenant =
     (if length (nullish (ta_subscriptions tenant) []) > 0
      then map (subscription_from_api line) (nullish (ta_subscriptions tenant) [])
      else let directEntries =
                 map (subscription_from_entry line tenant)
                   (enumerate 0 (nullish (ta_entries tenant) []))
        in if length directEntries > 0 then directEntries
           else let connectorSubscriptions =
                      map (subscription_from_connector line tenant)
                        (enumerate 0 (nullish (ta_connectors tenant) []))
             in if length connectorSubscriptions > 0 then connectorSubscriptions
                else [subscription_from_tenant line tenant])"

text \<open>The callback of \<open>lineTenants.map\<close>, and \<open>tenants\<close>: the breakdowns of the tenants of
  all lines, in order.\<close>

definition map_tenant :: "LineApi \<Rightarrow> TenantApi \<Rightarrow> InvoiceTenantBreakdown" where
  "map_tenant line tenant =
     \<lparr> tb_id = ta_id tenant,
       tb_name = ta_name tenant,
       tb_domain = ta_domain tenant,
       tb_amount = nullish (ta_amount tenant) (Fin 0),
       tb_retailAmount = nullish (ta_retailAmount tenant) (Fin 0),
       tb_customerName = ta_customerName tenant,
       tb_customerVatId = ta_customerVatId tenant,
       tb_customerReference = ta_customerReference tenant,
       tb_subscriptions = mapSubscriptions line tenant \<rparr>"

definition line_tenants :: "LineApi \<Rightarrow> TenantApi list" where
  "line_tenants line =
     (case la_billingData line of
        Val billingData \<Rightarrow> nullish (bd_tenants billingData) []
      | _ \<Rightarrow> [])"

definition map_tenants :: "LineApi list \<Rightarrow> InvoiceTenantBreakdown list" where
  "map_tenants lines = concat (map (\<lambda>line. map (map_tenant line) (line_tenants line)) lines)"

subsection \<open>The chain as the specification words it\<close>

text \<open>Strategies tried in order, the first result that is not empty wins.\<close>

fun first_non_empty :: "'a list list \<Rightarrow> 'a list" where
  "first_non_empty [] = []"
| "first_non_empty (xs # rest) = (if xs \<noteq> [] then xs else first_non_empty rest)"

definition from_subscriptions :: "LineApi \<Rightarrow> TenantApi \<Rightarrow> InvoiceSubscriptionBreakdown list" where
  "from_subscriptions line tenant =
     map (subscription_from_api line) (nullish (ta_subscriptions tenant) [])"

definition from_entries :: "LineApi \<Rightarrow> TenantApi \<Rightarrow> InvoiceSubscriptionBreakdown list" where
  "from_entries line tenant =
     map (subscription_from_entry line tenant) (enumerate 0 (nullish (ta_entries tenant) []))"

definition from_connectors :: "LineApi \<Rightarrow> TenantApi \<Rightarrow> InvoiceSubscriptionBreakdown list" where
  "from_connectors line tenant =
     map (subscription_from_connector line tenant)
       (enumerate 0 (nullish (ta_connectors tenant) []))"

definition from_tenant :: "LineApi \<Rightarrow> TenantApi \<Rightarrow> InvoiceSubscriptionBreakdown list" where
  "from_tenant line tenant = [subscription_from_tenant line tenant]"


text \<open>Quantity times unit price when both are given, else 0.\<close>

definition product_or_zero :: "jsnum nullable \<Rightarrow> jsnum nullable \<Rightarrow> jsnum" where
  "product_or_zero quantity unitPrice =
     (case quantity of
        Val q \<Rightarrow> (case unitPrice of Val u \<Rightarrow> js_times q u | _ \<Rightarrow> Fin 0)
      | _ \<Rightarrow> Fin 0)"

text \<open>A synthetic subscription has one entry, which repeats its description, nickname,
  license count and amounts.\<close>

definition entry_mirrors :: "InvoiceSubscriptionBreakdown \<Rightarrow> bool" where
  "entry_mirrors s =
     (map (\<lambda>e. (ent_description e, ent_nickname e, ent_licensQuantity e, ent_amount e,
                 ent_retailAmount e))
        (nullish (sub_entries s) [])
      = [(Val (sub_description s), sub_nickname s, sub_licensQuantity s, sub_amount s,
          sub_retailAmount s)])"

subsection \<open>A payload for the examples\<close>

definition example_line :: LineApi where
  "example_line =
     \<lparr> la_lineNo = Fin 10000, la_description = Val ''Microsoft licenses'',
       la_lineAmount = Fin 100, la_billingTypeId = Val ''MS'',
       la_billingTypeDescription = Val ''Microsoft'', la_billingDataExcel = Null,
       la_billingData = Null \<rparr>"

text \<open>A tenant that has none of the three arrays.\<close>

definition example_tenant :: TenantApi where
  "example_tenant =
     \<lparr> ta_id = ''t-1'', ta_name = Val ''Tenant One'', ta_domain = ''one.example'',
       ta_amount = Val (Fin 100), ta_retailAmount = Val (Fin 150), ta_customerId = ''c-1'',
       ta_customerName = ''Customer One'', ta_customerVatId = ''DK1'',
       ta_customerReference = ''ref'', ta_productId = Undefined,
       ta_productDescription = Undefined, ta_quantity = Val (Fin 4), ta_unitPrice = Val (Fin 25),
       ta_retailUnitPrice = Undefined, ta_entries = Undefined, ta_connectors = Undefined,
       ta_subscriptions = Undefined \<rparr>"

definition example_connector :: TenantConnectorApi where
  "example_connector =
     \<lparr> ca_id = Val ''conn-1'', ca_description = Val ''Connector'', ca_quantity = Val (Fin 3),
       ca_unitPrice = Val (Fin 7), ca_retailUnitPrice = Undefined, ca_amount = Undefined,
       ca_retailAmount = Undefined \<rparr>"

text \<open>An entry and a subscription of the raw payload.\<close>

definition example_entry :: TenantEntryApi where
  "example_entry =
     empty_entry\<lparr> ea_skuId := Val ''sku-9'', ea_nickname := Val ''Seat'',
                   ea_quantity := Val (Fin 2), ea_amount := Val (Fin 30),
                   ea_billing := Val ''Monthly'' \<rparr>"

definition example_subscription :: SubscriptionApi where
  "example_subscription =
     \<lparr> sa_id = ''s-1'', sa_description = ''Plan A'', sa_nickname = ''A'',
       sa_licensQuantity = Undefined, sa_birthday = ''2026-01-01'', sa_amount = Val (Fin 60),
       sa_retailAmount = Val (Fin 90), sa_promotionPercent = Undefined,
       sa_entries = Val [example_entry] \<rparr>"


section \<open>Properties\<close>

subsection \<open>Derived status\<close>

text \<open>
  C7. The derived status of a raw invoice record is Paid exactly when the remaining
  tax-inclusive balance is zero; it is Overdue exactly when the balance is not zero and the
  due date is strictly before the current date in the lexicographic order of the strings;
  it is Unpaid exactly in the remaining case. Both copies of \<open>mapStatus\<close> (the detail hook
  and the list hook) behave so.
\<close>

theorem mapStatus_derived:
  "(mapStatus today r d = Paid) = (r = Fin 0) \<and>
   (mapStatus today r d = Overdue) = (r \<noteq> Fin 0 \<and> str_lt d today) \<and>
   (mapStatus today r d = Unpaid) = (r \<noteq> Fin 0 \<and> \<not> str_lt d today) \<and>
   (mapStatus_list today ai = Paid) = (remainingAmountIncludingVAT ai = Fin 0) \<and>
   (mapStatus_list today ai = Overdue) =
     (remainingAmountIncludingVAT ai \<noteq> Fin 0 \<and> str_lt (api_dueDate ai) today) \<and>
   (mapStatus_list today ai = Unpaid) =
     (remainingAmountIncludingVAT ai \<noteq> Fin 0 \<and> \<not> str_lt (api_dueDate ai) today)"
  by (simp add: mapStatus_def mapStatus_list_def)

subsection \<open>Billing metrics\<close>










subsection \<open>Aging buckets\<close>

lemma js_le_mono: "js_le d (Fin a) \<Longrightarrow> a \<le> b \<Longrightarrow> js_le d (Fin b)"
  by (cases d) auto

lemma js_gt_le_iff:
  "(\<not> js_le d (Fin a) \<and> js_le d (Fin b)) = (js_gt d (Fin a) \<and> js_le d (Fin b))"
  by (cases d) auto

lemma fold_b0_30:
  "b0_30 (foldl (aging_step dt ref) b invs) =
     b0_30 b + sum_list (map (\<lambda>i. to_number (amountInclVat i))
       (filter (\<lambda>i. status i \<noteq> Paid \<and> js_le (diffInDays dt ref (dueDate i)) (Fin 30)) invs))"
  by (induction invs arbitrary: b) (simp_all add: aging_step_def Let_def add.assoc)

lemma fold_b31_60:
  "b31_60 (foldl (aging_step dt ref) b invs) =
     b31_60 b + sum_list (map (\<lambda>i. to_number (amountInclVat i))
       (filter (\<lambda>i. status i \<noteq> Paid \<and> js_gt (diffInDays dt ref (dueDate i)) (Fin 30)
                     \<and> js_le (diffInDays dt ref (dueDate i)) (Fin 60)) invs))"
  by (induction invs arbitrary: b)
     (auto simp add: aging_step_def Let_def add.assoc js_gt_le_iff[symmetric])

lemma fold_b61_90:
  "b61_90 (foldl (aging_step dt ref) b invs) =
     b61_90 b + sum_list (map (\<lambda>i. to_number (amountInclVat i))
       (filter (\<lambda>i. status i \<noteq> Paid \<and> js_gt (diffInDays dt ref (dueDate i)) (Fin 60)
                     \<and> js_le (diffInDays dt ref (dueDate i)) (Fin 90)) invs))"
proof (induction invs arbitrary: b)
  case Nil
  show ?case by simp
next
  case (Cons i invs)
  have "js_le (diffInDays dt ref (dueDate i)) (Fin 30) \<Longrightarrow>
        js_le (diffInDays dt ref (dueDate i)) (Fin 60)"
    using js_le_mono[of _ 30 60] by simp
  then show ?case
    using Cons.IH by (auto simp add: aging_step_def Let_def add.assoc js_gt_le_iff[symmetric])
qed

lemma fold_b90plus:
  "b90plus (foldl (aging_step dt ref) b invs) =
     b90plus b + sum_list (map (\<lambda>i. to_number (amountInclVat i))
       (filter (\<lambda>i. status i \<noteq> Paid \<and> \<not> js_le (diffInDays dt ref (dueDate i)) (Fin 90)) invs))"
proof (induction invs arbitrary: b)
  case Nil
  show ?case by simp
next
  case (Cons i invs)
  have "js_le (diffInDays dt ref (dueDate i)) (Fin 30) \<Longrightarrow>
        js_le (diffInDays dt ref (dueDate i)) (Fin 90)"
       "js_le (diffInDays dt ref (dueDate i)) (Fin 60) \<Longrightarrow>
        js_le (diffInDays dt ref (dueDate i)) (Fin 90)"
    using js_le_mono[of _ 30 90] js_le_mono[of _ 60 90] by simp_all
  then show ?case
    using Cons.IH by (auto simp add: aging_step_def Let_def add.assoc)
qed

lemma fold_buckets_total:
  "b0_30 (foldl (aging_step dt ref) b invs) + b31_60 (foldl (aging_step dt ref) b invs)
     + b61_90 (foldl (aging_step dt ref) b invs) + b90plus (foldl (aging_step dt ref) b invs) =
   b0_30 b + b31_60 b + b61_90 b + b90plus b +
     sum_list (map (\<lambda>i. to_number (amountInclVat i)) (filter (\<lambda>i. status i \<noteq> Paid) invs))"
  by (induction invs arbitrary: b) (simp_all add: aging_step_def Let_def ac_simps)

text \<open>
  C6. For every invoice list and reference date, \<open>calculateAgingBuckets\<close> adds the
  tax-inclusive amount of each invoice whose status is not Paid to one bucket, chosen by
  daysPastDue = floor((referenceDate - dueDate) / 1 day): "0-30" when daysPastDue <= 30
  (negative values included), "31-60" when 30 < daysPastDue <= 60, "61-90" when
  60 < daysPastDue <= 90, and "90+" otherwise. The four buckets together hold the amount
  of every invoice that is not Paid exactly once, and a Paid invoice is in no bucket. On the
  fixture of the unit test the buckets are 100, 200, 300 and 400.
\<close>

theorem calculateAgingBuckets_buckets:
  "calculateAgingBuckets dt (Val invs) ref =
     \<lparr> b0_30 = sum_list (map (\<lambda>i. to_number (amountInclVat i))
         (filter (\<lambda>i. status i \<noteq> Paid \<and> js_le (diffInDays dt ref (dueDate i)) (Fin 30)) invs)),
       b31_60 = sum_list (map (\<lambda>i. to_number (amountInclVat i))
         (filter (\<lambda>i. status i \<noteq> Paid \<and> js_gt (diffInDays dt ref (dueDate i)) (Fin 30)
                       \<and> js_le (diffInDays dt ref (dueDate i)) (Fin 60)) invs)),
       b61_90 = sum_list (map (\<lambda>i. to_number (amountInclVat i))
         (filter (\<lambda>i. status i \<noteq> Paid \<and> js_gt (diffInDays dt ref (dueDate i)) (Fin 60)
                       \<and> js_le (diffInDays dt ref (dueDate i)) (Fin 90)) invs)),
       b90plus = sum_list (map (\<lambda>i. to_number (amountInclVat i))
         (filter (\<lambda>i. status i \<noteq> Paid \<and> \<not> js_le (diffInDays dt ref (dueDate i)) (Fin 90))
            invs)) \<rparr> \<and>
   b0_30 (calculateAgingBuckets dt (Val invs) ref)
     + b31_60 (calculateAgingBuckets dt (Val invs) ref)
     + b61_90 (calculateAgingBuckets dt (Val invs) ref)
     + b90plus (calculateAgingBuckets dt (Val invs) ref)
     = sum_list (map (\<lambda>i. to_number (amountInclVat i)) (filter (\<lambda>i. status i \<noteq> Paid) invs)) \<and>
   diffInDays (\<lambda>s. Fin due) (Fin from) toIso = Fin (of_int \<lfloor>(from - due) / 86400000\<rfloor>) \<and>
   calculateAgingBuckets fixture_times (Val aging_fixture) (Fin 1769904000000)
     = \<lparr> b0_30 = Fin 100, b31_60 = Fin 200, b61_90 = Fin 300, b90plus = Fin 400 \<rparr>"
proof -
  have buckets: "calculateAgingBuckets dt (Val invs) ref =
     \<lparr> b0_30 = sum_list (map (\<lambda>i. to_number (amountInclVat i))
         (filter (\<lambda>i. status i \<noteq> Paid \<and> js_le (diffInDays dt ref (dueDate i)) (Fin 30)) invs)),
       b31_60 = sum_list (map (\<lambda>i. to_number (amountInclVat i))
         (filter (\<lambda>i. status i \<noteq> Paid \<and> js_gt (diffInDays dt ref (dueDate i)) (Fin 30)
                       \<and> js_le (diffInDays dt ref (dueDate i)) (Fin 60)) invs)),
       b61_90 = sum_list (map (\<lambda>i. to_number (amountInclVat i))
         (filter (\<lambda>i. status i \<noteq> Paid \<and> js_gt (diffInDays dt ref (dueDate i)) (Fin 60)
                       \<and> js_le (diffInDays dt ref (dueDate i)) (Fin 90)) invs)),
       b90plus = sum_list (map (\<lambda>i. to_number (amountInclVat i))
         (filter (\<lambda>i. status i \<noteq> Paid \<and> \<not> js_le (diffInDays dt ref (dueDate i)) (Fin 90))
            invs)) \<rparr>"
    by (rule AgingBuckets.equality)
       (simp_all add: calculateAgingBuckets_def Let_def fold_b0_30 fold_b31_60 fold_b61_90
          fold_b90plus zero_jsnum_def[symmetric])
  have total: "b0_30 (calculateAgingBuckets dt (Val invs) ref)
     + b31_60 (calculateAgingBuckets dt (Val invs) ref)
     + b61_90 (calculateAgingBuckets dt (Val invs) ref)
     + b90plus (calculateAgingBuckets dt (Val invs) ref)
     = sum_list (map (\<lambda>i. to_number (amountInclVat i)) (filter (\<lambda>i. status i \<noteq> Paid) invs))"
    by (simp add: calculateAgingBuckets_def Let_def fold_buckets_total zero_jsnum_def[symmetric])
  have days: "diffInDays (\<lambda>s. Fin due) (Fin from) toIso = Fin (of_int \<lfloor>(from - due) / 86400000\<rfloor>)"
    by (simp add: diffInDays_def MS_PER_DAY_def Let_def)
  have fixture: "calculateAgingBuckets fixture_times (Val aging_fixture) (Fin 1769904000000)
     = \<lparr> b0_30 = Fin 100, b31_60 = Fin 200, b61_90 = Fin 300, b90plus = Fin 400 \<rparr>"
    by (simp add: calculateAgingBuckets_def aging_step_def diffInDays_def MS_PER_DAY_def
        fixture_times_def aging_fixture_def buildInvoice_def Let_def)
  show ?thesis
    using buckets total days fixture by blast
qed

subsection \<open>Strings and labels\<close>

lemma is_space_lower [simp]: "is_space (lower_char c) = is_space c"
  by (auto simp add: is_space_def lower_char_def)

lemma is_space_lower_comp [simp]: "is_space \<circ> lower_char = is_space"
  by (simp add: fun_eq_iff)

lemma lower_char_idem [simp]: "lower_char (lower_char c) = lower_char c"
  by (auto simp add: lower_char_def)

lemma toLowerCase_idem [simp]: "toLowerCase (toLowerCase s) = toLowerCase s"
  by (simp add: toLowerCase_def)

lemma toLowerCase_append [simp]: "toLowerCase (a @ b) = toLowerCase a @ toLowerCase b"
  by (simp add: toLowerCase_def)

lemma dropWhile_space_lower:
  "dropWhile is_space (toLowerCase s) = toLowerCase (dropWhile is_space s)"
  by (simp add: toLowerCase_def dropWhile_map)

lemma trim_lower: "trim (toLowerCase s) = toLowerCase (trim s)"
  by (simp add: trim_def toLowerCase_def dropWhile_map rev_map)

lemma lower_char_space [simp]: "lower_char CHR '' '' = CHR '' ''"
  by (simp add: lower_char_def)

lemma squash_lower: "squash_spaces (toLowerCase s) = toLowerCase (squash_spaces s)"
proof (induction s rule: squash_spaces.induct)
  case 1
  show ?case by (simp add: toLowerCase_def)
next
  case (2 c cs)
  then show ?case
    by (cases "is_space c") (simp_all add: toLowerCase_def dropWhile_map)
qed

lemma lower_char_paren [simp]:
  "(lower_char c = CHR ''('') = (c = CHR ''('')" "(lower_char c = CHR '')'') = (c = CHR '')'')"
  by (auto simp add: lower_char_def char_of_eq_iff take_bit_eq_mod)

lemma match_lower: "match_nce (toLowerCase s) = map_option toLowerCase (match_nce s)"
proof (cases s)
  case Nil
  then show ?thesis by (simp add: match_nce_def toLowerCase_def)
next
  case s: (Cons c r)
  define r1 where "r1 = dropWhile is_space r"
  define r2 where "r2 = dropWhile is_space (drop 3 r1)"
  have a: "dropWhile is_space (toLowerCase r) = toLowerCase r1"
    by (simp add: dropWhile_space_lower r1_def)
  have b: "toLowerCase (take 3 (toLowerCase r1)) = toLowerCase (take 3 r1)"
    by (simp add: toLowerCase_def take_map)
  have c: "dropWhile is_space (drop 3 (toLowerCase r1)) = toLowerCase r2"
    by (simp add: toLowerCase_def drop_map dropWhile_map r2_def)
  have lhs: "match_nce (toLowerCase s) =
     (if lower_char c \<noteq> CHR ''('' then None
      else if toLowerCase (take 3 r1) \<noteq> ''nce'' then None
      else (case toLowerCase r2 of [] \<Rightarrow> None
            | d # r3 \<Rightarrow> if d = CHR '')'' then Some (dropWhile is_space r3) else None))"
    unfolding s match_nce_def toLowerCase_def[of "c # r"] list.map list.case
    unfolding toLowerCase_def[symmetric] a Let_def b c ..
  have rhs: "match_nce s =
     (if c \<noteq> CHR ''('' then None
      else if toLowerCase (take 3 r1) \<noteq> ''nce'' then None
      else (case r2 of [] \<Rightarrow> None
            | d # r3 \<Rightarrow> if d = CHR '')'' then Some (dropWhile is_space r3) else None))"
    unfolding s match_nce_def list.case r1_def[symmetric] Let_def r2_def[symmetric] ..
  show ?thesis
  proof (cases r2)
    case Nil
    then show ?thesis unfolding lhs rhs by (simp add: toLowerCase_def)
  next
    case (Cons d r3)
    then show ?thesis unfolding lhs rhs
      by (simp add: toLowerCase_def dropWhile_map)
  qed
qed

lemma strip_lower: "stripNcePrefix (toLowerCase s) = toLowerCase (stripNcePrefix s)"
  by (simp add: stripNcePrefix_def match_lower split: option.split)

lemma format_lower: "formatProductLabel (toLowerCase s) = toLowerCase (formatProductLabel s)"
  by (simp add: formatProductLabel_def Let_def trim_lower strip_lower)
     (simp add: toLowerCase_def)

lemma normalizeLabel_lower: "normalizeLabel (toLowerCase s) = normalizeLabel s"
  by (simp add: normalizeLabel_def format_lower squash_lower trim_lower)

lemma trim_idem [simp]: "trim (trim s) = trim s"
proof -
  define t where "t = dropWhile is_space s"
  define u where "u = rev (dropWhile is_space (rev t))"
  have "rev (takeWhile is_space (rev t) @ dropWhile is_space (rev t)) = t"
    by simp
  then have "u @ rev (takeWhile is_space (rev t)) = t"
    unfolding u_def by (simp only: rev_append)
  then obtain w where split: "t = u @ w"
    by (rule that[OF sym])
  have front: "dropWhile is_space u = u"
  proof (cases "u = []")
    case True
    then show ?thesis by simp
  next
    case False
    then have "t \<noteq> []" and "hd u = hd t"
      by (simp_all add: split)
    moreover have "t \<noteq> [] \<Longrightarrow> \<not> is_space (hd t)"
      unfolding t_def by (rule hd_dropWhile)
    ultimately show ?thesis
      using False by (simp add: dropWhile_eq_self_iff)
  qed
  have rear: "dropWhile is_space (rev u) = rev u"
    unfolding u_def by simp
  have "trim s = u"
    by (simp add: trim_def t_def u_def)
  moreover have "trim u = u"
    by (simp add: trim_def front rear)
  ultimately show ?thesis by simp
qed

lemma format_trim: "formatProductLabel (trim s) = formatProductLabel s"
  by (simp add: formatProductLabel_def)

lemma normalizeLabel_trim: "normalizeLabel (trim s) = normalizeLabel s"
  by (simp add: normalizeLabel_def format_trim)

subsection \<open>Discount store\<close>

















subsection \<open>Discount key and grouping key\<close>

lemma makeProductKey_eq:
  "(makeProductKey (Val v) (Val p1) = makeProductKey (Val v) (Val p2))
     = (toLowerCase p1 = toLowerCase p2)"
  by (simp add: makeProductKey_def toLowerCase_def)

lemma lower_eq_normalize:
  assumes "toLowerCase p1 = toLowerCase p2"
  shows "normalizeLabel p1 = normalizeLabel p2"
proof -
  have "normalizeLabel p1 = normalizeLabel (toLowerCase p1)"
    by (simp add: normalizeLabel_lower)
  also have "\<dots> = normalizeLabel (toLowerCase p2)"
    by (simp add: assms)
  finally show ?thesis
    by (simp add: normalizeLabel_lower)
qed

subsection \<open>Sorting\<close>

lemma mset_insert_sorted: "mset (insert_sorted c x xs) = add_mset x (mset xs)"
  by (induction xs) simp_all

lemma mset_js_sort: "mset (js_sort c xs) = mset xs"
  by (induction xs) (simp_all add: js_sort_def mset_insert_sorted)

lemma set_js_sort: "set (js_sort c xs) = set xs"
  using mset_js_sort[of c xs] by (metis set_mset_mset)



subsection \<open>Association lists\<close>


lemma in_update:
  "kv \<in> set (AList.update k v al) \<Longrightarrow> kv = (k, v) \<or> kv \<in> set al"
  by (induction al) (auto split: if_splits)

subsection \<open>One step of the loops\<close>

lemma entry_step_keeps:
  "pe_amount (fst (entry_step l st e)) = pe_amount (fst st)"
  "pe_licenses (fst (entry_step l st e)) = pe_licenses (fst st)"
  "pe_displayName (fst (entry_step l st e)) = pe_displayName (fst st)"
  by (simp_all add: entry_step_def Let_def)

lemma entries_keep:
  "pe_amount (fst (foldl (entry_step l) st es)) = pe_amount (fst st)"
  "pe_licenses (fst (foldl (entry_step l) st es)) = pe_licenses (fst st)"
  "pe_displayName (fst (foldl (entry_step l) st es)) = pe_displayName (fst st)"
  by (induction es arbitrary: st) (simp_all add: entry_step_keeps)

lemma next_product_amount:
  "pe_amount (next_product_entry s found)
     = (case found of None \<Rightarrow> 0 | Some e \<Rightarrow> pe_amount e) + effectiveAmount_of s"
  by (cases found) (simp_all add: next_product_entry_def Let_def entries_keep zero_jsnum_def)

lemma next_product_licenses:
  "pe_licenses (next_product_entry s found)
     = (case found of None \<Rightarrow> 0 | Some e \<Rightarrow> pe_licenses e) + licenses_of s"
  by (cases found) (simp_all add: next_product_entry_def Let_def entries_keep zero_jsnum_def)

lemma next_product_displayName:
  "pe_displayName (next_product_entry s found)
     = (case found of None \<Rightarrow> productLabel_of s | Some e \<Rightarrow> pe_displayName e)"
  by (cases found) (simp_all add: next_product_entry_def Let_def entries_keep)

lemma next_vendor_fields:
  "ve_vendorName (next_vendor_entry s found)
     = (case found of None \<Rightarrow> vendorName_of s | Some e \<Rightarrow> ve_vendorName e)"
  "ve_totalAmount (next_vendor_entry s found)
     = (case found of None \<Rightarrow> 0 | Some e \<Rightarrow> ve_totalAmount e) + effectiveAmount_of s"
  "ve_totalLicenses (next_vendor_entry s found)
     = (case found of None \<Rightarrow> 0 | Some e \<Rightarrow> ve_totalLicenses e) + licenses_of s"
  "productsMap (next_vendor_entry s found)
     = AList.update (productKey_of s)
         (next_product_entry s
            (map_of (case found of None \<Rightarrow> [] | Some e \<Rightarrow> productsMap e) (productKey_of s)))
         (case found of None \<Rightarrow> [] | Some e \<Rightarrow> productsMap e)"
  by (cases found; simp add: next_vendor_entry_def Let_def zero_jsnum_def)+







subsection \<open>What the loop has stored\<close>

lemma vendor_step:
  "map_of (sub_step vm s) v =
     (if v = vendorName_of s then Some (next_vendor_entry s (map_of vm v)) else map_of vm v)"
  by (simp add: sub_step_def update_conv')

lemma bucket_step:
  "bucket (sub_step vm s) v k =
     (if v = vendorName_of s \<and> k = productKey_of s
      then Some (next_product_entry s (bucket vm v k)) else bucket vm v k)"
  by (cases "map_of vm (vendorName_of s)")
     (simp_all add: bucket_def vendor_step next_vendor_fields update_conv')





lemma bucket_amount:
  "(case bucket (foldl sub_step vm subs) v k of None \<Rightarrow> 0 | Some pe \<Rightarrow> pe_amount pe)
     = (case bucket vm v k of None \<Rightarrow> 0 | Some pe \<Rightarrow> pe_amount pe)
       + sum_list (map effectiveAmount_of
           (filter (\<lambda>s. vendorName_of s = v \<and> productKey_of s = k) subs))"
  by (induction subs arbitrary: vm)
     (auto simp add: bucket_step next_product_amount ac_simps)




subsection \<open>Keys\<close>

lemma key_of_label: "normalizeLabel (productLabel_of s) = productKey_of s"
  by (simp add: productKey_of_def)

lemma next_vendor_well_keyed:
  assumes "case found of None \<Rightarrow> True
           | Some e \<Rightarrow> ve_vendorName e = vendorName_of s \<and> distinct (map fst (productsMap e)) \<and>
               (\<forall>kp \<in> set (productsMap e). normalizeLabel (pe_displayName (snd kp)) = fst kp)"
  shows "ve_vendorName (next_vendor_entry s found) = vendorName_of s \<and>
         distinct (map fst (productsMap (next_vendor_entry s found))) \<and>
         (\<forall>kp \<in> set (productsMap (next_vendor_entry s found)).
             normalizeLabel (pe_displayName (snd kp)) = fst kp)"
proof -
  define pm where "pm = (case found of None \<Rightarrow> [] | Some e \<Rightarrow> productsMap e)"
  have name: "ve_vendorName (next_vendor_entry s found) = vendorName_of s"
    using assms by (cases found) (simp_all add: next_vendor_fields)
  have d: "distinct (map fst pm)"
    and n: "\<forall>kp \<in> set pm. normalizeLabel (pe_displayName (snd kp)) = fst kp"
    using assms by (cases found; simp add: pm_def)+
  have new: "normalizeLabel (pe_displayName (next_product_entry s (map_of pm (productKey_of s))))
               = productKey_of s"
  proof (cases "map_of pm (productKey_of s)")
    case None
    then show ?thesis by (simp add: next_product_displayName key_of_label)
  next
    case (Some pe)
    then have "(productKey_of s, pe) \<in> set pm" by (rule map_of_SomeD)
    with n have "normalizeLabel (pe_displayName pe) = productKey_of s" by fastforce
    with Some show ?thesis by (simp add: next_product_displayName)
  qed
  have "normalizeLabel (pe_displayName (snd kp)) = fst kp"
    if "kp \<in> set (AList.update (productKey_of s)
                    (next_product_entry s (map_of pm (productKey_of s))) pm)" for kp
    using in_update[OF that] new n by auto
  then show ?thesis
    using name d by (simp add: next_vendor_fields pm_def[symmetric] distinct_update)
qed

lemma sub_step_well_keyed:
  assumes "well_keyed vm"
  shows "well_keyed (sub_step vm s)"
proof -
  have d: "distinct (map fst vm)"
    and all: "\<And>kv. kv \<in> set vm \<Longrightarrow> ve_vendorName (snd kv) = fst kv \<and>
                  distinct (map fst (productsMap (snd kv))) \<and>
                  (\<forall>kp \<in> set (productsMap (snd kv)).
                      normalizeLabel (pe_displayName (snd kp)) = fst kp)"
    using assms by (simp_all add: well_keyed_def list_all_iff)
  let ?new = "next_vendor_entry s (map_of vm (vendorName_of s))"
  have found: "case map_of vm (vendorName_of s) of None \<Rightarrow> True
           | Some e \<Rightarrow> ve_vendorName e = vendorName_of s \<and> distinct (map fst (productsMap e)) \<and>
               (\<forall>kp \<in> set (productsMap e). normalizeLabel (pe_displayName (snd kp)) = fst kp)"
  proof (cases "map_of vm (vendorName_of s)")
    case None
    then show ?thesis by simp
  next
    case (Some e)
    then have "(vendorName_of s, e) \<in> set vm" by (rule map_of_SomeD)
    from all[OF this] Some show ?thesis by simp
  qed
  have new: "ve_vendorName ?new = vendorName_of s \<and>
         distinct (map fst (productsMap ?new)) \<and>
         (\<forall>kp \<in> set (productsMap ?new). normalizeLabel (pe_displayName (snd kp)) = fst kp)"
    using found by (rule next_vendor_well_keyed)
  have "ve_vendorName (snd kv) = fst kv \<and>
                  distinct (map fst (productsMap (snd kv))) \<and>
                  (\<forall>kp \<in> set (productsMap (snd kv)).
                      normalizeLabel (pe_displayName (snd kp)) = fst kp)"
    if "kv \<in> set (sub_step vm s)" for kv
  proof -
    from that consider "kv = (vendorName_of s, ?new)" | "kv \<in> set vm"
      unfolding sub_step_def using in_update by fastforce
    then show ?thesis
    proof cases
      case 1
      then show ?thesis using new by simp
    next
      case 2
      then show ?thesis by (rule all)
    qed
  qed
  then show ?thesis
    using d by (simp add: well_keyed_def list_all_iff sub_step_def distinct_update)
qed

lemma loop_well_keyed: "well_keyed vm \<Longrightarrow> well_keyed (foldl sub_step vm subs)"
  by (induction subs arbitrary: vm) (simp_all add: sub_step_well_keyed)

lemma run_well_keyed: "well_keyed (foldl sub_step [] subs)"
  by (rule loop_well_keyed) (simp add: well_keyed_def)

subsection \<open>From the stored entries to the result\<close>

lemma result_vendor:
  assumes "av \<in> set (aggregateVendorsFromSubscriptions lc (Val subs))"
  obtains ve where "map_of (foldl sub_step [] subs) (vendorName av) = Some ve"
    and "av = finish_vendor lc ve"
proof -
  let ?vm = "foldl sub_step [] subs"
  from assms obtain kv where kv: "kv \<in> set ?vm" and av: "av = finish_vendor lc (snd kv)"
    by (auto simp add: aggregateVendorsFromSubscriptions_def Let_def set_js_sort)
  have wk: "well_keyed ?vm" by (rule run_well_keyed)
  then have "ve_vendorName (snd kv) = fst kv"
    using kv by (simp add: well_keyed_def list_all_iff)
  moreover have "map_of ?vm (fst kv) = Some (snd kv)"
    using wk kv by (simp add: well_keyed_def)
  ultimately have "map_of ?vm (vendorName av) = Some (snd kv)"
    by (simp add: av finish_vendor_def)
  then show thesis using av by (rule that)
qed


lemma result_product:
  assumes "map_of (foldl sub_step [] subs) v = Some ve"
    and "p \<in> set (products (finish_vendor lc ve))"
  obtains pe where "bucket (foldl sub_step [] subs) v (normalizeLabel (displayName p)) = Some pe"
    and "p = finish_product lc pe"
proof -
  let ?vm = "foldl sub_step [] subs"
  from assms(2) obtain kp where kp: "kp \<in> set (productsMap ve)"
    and p: "p = finish_product lc (snd kp)"
    by (auto simp add: finish_vendor_def set_js_sort)
  from assms(1) have mem: "(v, ve) \<in> set ?vm" by (rule map_of_SomeD)
  have wk: "well_keyed ?vm" by (rule run_well_keyed)
  with mem have d: "distinct (map fst (productsMap ve))"
    and n: "\<forall>kp \<in> set (productsMap ve). normalizeLabel (pe_displayName (snd kp)) = fst kp"
    by (auto simp add: well_keyed_def list_all_iff)
  from n kp have "normalizeLabel (displayName p) = fst kp"
    by (simp add: p finish_product_def)
  moreover from d kp have "map_of (productsMap ve) (fst kp) = Some (snd kp)"
    by simp
  ultimately have "bucket ?vm v (normalizeLabel (displayName p)) = Some (snd kp)"
    by (simp add: bucket_def assms(1))
  then show thesis using p by (rule that)
qed

lemma rule_eq: "effectiveAmount_of s = amount_by_vendor_rule s"
  by (cases "sub_retailAmount s"; cases "sub_amount s")
     (simp_all add: effectiveAmount_of_def getAmountForVendor_def amount_by_vendor_rule_def
        shouldUseRetailAmount_def Let_def)

lemma rule_fun: "effectiveAmount_of = amount_by_vendor_rule"
  by (simp add: fun_eq_iff rule_eq)

lemma product_amounts:
  "\<forall>av \<in> set (aggregateVendorsFromSubscriptions lc (Val subs)).
     \<forall>p \<in> set (products av).
       prod_amount p = sum_list (map amount_by_vendor_rule
         (filter (\<lambda>s. vendorName_of s = vendorName av
                     \<and> productKey_of s = normalizeLabel (displayName p)) subs))"
proof (intro ballI)
  fix av p
  assume av: "av \<in> set (aggregateVendorsFromSubscriptions lc (Val subs))"
    and p: "p \<in> set (products av)"
  from av obtain ve where ve: "map_of (foldl sub_step [] subs) (vendorName av) = Some ve"
    and av_eq: "av = finish_vendor lc ve"
    by (rule result_vendor)
  from ve p obtain pe
    where pe: "bucket (foldl sub_step [] subs) (vendorName av) (normalizeLabel (displayName p)) = Some pe"
      and p_eq: "p = finish_product lc pe"
    unfolding av_eq by (rule result_product)
  have "prod_amount p = pe_amount pe"
    by (simp add: p_eq finish_product_def)
  also have "\<dots> = sum_list (map effectiveAmount_of
         (filter (\<lambda>s. vendorName_of s = vendorName av
                     \<and> productKey_of s = normalizeLabel (displayName p)) subs))"
  proof -
    have "bucket [] (vendorName av) (normalizeLabel (displayName p)) = None"
      by (simp add: bucket_def)
    then show ?thesis
      using bucket_amount[of "[]" subs "vendorName av" "normalizeLabel (displayName p)"]
      by (simp add: pe)
  qed
  finally show "prod_amount p = sum_list (map amount_by_vendor_rule
         (filter (\<lambda>s. vendorName_of s = vendorName av
                     \<and> productKey_of s = normalizeLabel (displayName p)) subs))"
    by (simp add: rule_fun)
qed

text \<open>
  C1. For every list of subscriptions, the amount of every product of the result is the sum,
  over the subscriptions of its vendor and grouping key, of the amount the vendor rule
  selects: the retail amount (else the cost amount, else 0) when the resolved vendor name
  contains "keepit", "adobe" or "microsoft" in any letter case, the cost amount (else the
  retail amount, else 0) otherwise, an amount being usable when it is of type number. This
  is what \<open>getAmountForVendor\<close> returns for the resolved vendor. A Keepit subscription with
  cost 50 and retail 120 gives 120; one of the unknown vendor Contoso with cost 10 and
  retail 25 gives 10.
\<close>

theorem product_amount_by_vendor_rule:
  "(\<forall>av \<in> set (aggregateVendorsFromSubscriptions lc (Val subs)).
      \<forall>p \<in> set (products av).
        prod_amount p = sum_list (map amount_by_vendor_rule
          (filter (\<lambda>s. vendorName_of s = vendorName av
                      \<and> productKey_of s = normalizeLabel (displayName p)) subs))) \<and>
   getAmountForVendor sub (vendorName_of sub) = amount_by_vendor_rule sub \<and>
   result_amounts
     (aggregateVendorsFromSubscriptions lc
        (Val [test_subscription ''keepit-1'' ''Keepit Backup'' ''Keepit Backup'' 2 50 120
                (Val ''Keepit'')]))
     = [(''Keepit'', [Fin 120])] \<and>
   result_amounts
     (aggregateVendorsFromSubscriptions lc
        (Val [test_subscription ''other'' ''Other Product'' ''Other Product'' 1 10 25
                (Val ''Contoso'')]))
     = [(''Contoso'', [Fin 10])]"
proof -
  have rule: "getAmountForVendor sub (vendorName_of sub) = amount_by_vendor_rule sub"
    using rule_eq[of sub] by (simp add: effectiveAmount_of_def)
  have keepit: "result_amounts
     (aggregateVendorsFromSubscriptions lc
        (Val [test_subscription ''keepit-1'' ''Keepit Backup'' ''Keepit Backup'' 2 50 120
                (Val ''Keepit'')]))
     = [(''Keepit'', [Fin 120])]"
    by code_simp
  have other: "result_amounts
     (aggregateVendorsFromSubscriptions lc
        (Val [test_subscription ''other'' ''Other Product'' ''Other Product'' 1 10 25
                (Val ''Contoso'')]))
     = [(''Contoso'', [Fin 10])]"
    by code_simp
  show ?thesis
    using product_amounts[of lc subs] rule keepit other by (intro conjI)
qed

subsection \<open>Two subscriptions of one bucket\<close>

lemma js_sort_single [simp]: "js_sort c [x] = [x]"
  by (simp add: js_sort_def)

lemma pair_merges:
  assumes "vendorName_of a = vendorName_of b" and "productKey_of a = productKey_of b"
  shows "result_rows
           (aggregateVendorsFromSubscriptions lc (Val [a, b]))
         = [(vendorName_of a, licenses_of a + licenses_of b,
             effectiveAmount_of a + effectiveAmount_of b,
             [(productLabel_of a, licenses_of a + licenses_of b,
               effectiveAmount_of a + effectiveAmount_of b)])]"
proof -
  let ?va = "next_vendor_entry a None"
  let ?vb = "next_vendor_entry b (Some ?va)"
  have first: "sub_step [] a = [(vendorName_of a, ?va)]"
    by (simp add: sub_step_def)
  have second: "sub_step [(vendorName_of a, ?va)] b = [(vendorName_of a, ?vb)]"
    by (simp add: sub_step_def assms(1)[symmetric])
  have pm: "productsMap ?vb
      = [(productKey_of a, next_product_entry b (Some (next_product_entry a None)))]"
    by (simp add: next_vendor_fields assms(2)[symmetric])
  show ?thesis
    by (simp add: result_rows_def aggregateVendorsFromSubscriptions_def first second
          finish_vendor_def finish_product_def pm next_vendor_fields(1-3) next_product_amount
          next_product_licenses next_product_displayName zero_jsnum_def[symmetric])
qed

subsection \<open>Labels\<close>

lemma format_simple:
  assumes "simple_label l"
  shows "formatProductLabel l = label_remainder l"
    and "normalizeLabel (formatProductLabel l) = label_core l"
proof -
  let ?r = "label_remainder l"
  from assms have ne: "?r \<noteq> []" and nm: "match_nce ?r = None"
    by (simp_all add: simple_label_def)
  show f: "formatProductLabel l = ?r"
    using ne by (simp add: formatProductLabel_def label_remainder_def Let_def)
  have "trim ?r = ?r"
    by (simp add: label_remainder_def)
  moreover have "stripNcePrefix ?r = ?r"
    using nm by (simp add: stripNcePrefix_def)
  ultimately have "formatProductLabel ?r = ?r"
    by (simp add: formatProductLabel_def Let_def)
  then show "normalizeLabel (formatProductLabel l) = label_core l"
    by (simp add: f normalizeLabel_def label_core_def)
qed

lemma simple_labels_key:
  assumes "simple_label (rawProductLabel_of a)" and "simple_label (rawProductLabel_of b)"
    and "label_core (rawProductLabel_of a) = label_core (rawProductLabel_of b)"
  shows "productKey_of a = productKey_of b"
    and "productLabel_of a = label_remainder (rawProductLabel_of a)"
proof -
  show "productKey_of a = productKey_of b"
    using assms by (simp add: productKey_of_def productLabel_of_def format_simple(2))
  show "productLabel_of a = label_remainder (rawProductLabel_of a)"
    using assms(1) by (simp add: productLabel_of_def format_simple(1))
qed


subsection \<open>The result as a function of the multiset of subscriptions\<close>






subsection \<open>Claims about the aggregation\<close>

theorem product_amount_by_vendor_rule_witness:
  "\<lparr> vendorName = ''Keepit'', totalLicenses = Fin 2, totalAmount = Fin 120,
      products = [\<lparr> displayName = ''Keepit Backup'', licenses = Fin 2, prod_amount = Fin 120,
                    costAmount = Fin 50, prod_billing = Undefined, prod_commitment = Undefined,
                    details = [] \<rparr>] \<rparr>
     \<in> set (aggregateVendorsFromSubscriptions compare_code_units (Val retail_fixture)) \<and>
   Fin 120 = sum_list (map amount_by_vendor_rule
     (filter (\<lambda>s. vendorName_of s = ''Keepit'' \<and> productKey_of s = normalizeLabel ''Keepit Backup'')
        retail_fixture))"
proof -
  let ?p = "\<lparr> displayName = ''Keepit Backup'', licenses = Fin 2, prod_amount = Fin 120,
                    costAmount = Fin 50, prod_billing = Undefined, prod_commitment = Undefined,
                    details = [] \<rparr>"
  let ?v = "\<lparr> vendorName = ''Keepit'', totalLicenses = Fin 2, totalAmount = Fin 120,
      products = [?p] \<rparr>"
  have mem: "?v \<in> set (aggregateVendorsFromSubscriptions compare_code_units (Val retail_fixture))"
    by code_simp
  have "?p \<in> set (products ?v)"
    by simp
  with product_amount_by_vendor_rule[of compare_code_units retail_fixture] mem
  have "prod_amount ?p = sum_list (map amount_by_vendor_rule
         (filter (\<lambda>s. vendorName_of s = vendorName ?v
                     \<and> productKey_of s = normalizeLabel (displayName ?p)) retail_fixture))"
    by blast
  with mem show ?thesis by simp
qed


text \<open>
  C2 (amended). For every pair of subscriptions under the same vendor whose product labels
  are simple (what follows the leading "(NCE)" marker, if there is one, is not empty and
  does not begin with another marker) and differ only by that leading marker, by runs of
  white space or by letter case, both have the same grouping key, and the aggregation of
  the pair is one vendor with one product, whose licenses and amount are the sums of both
  and whose display name is the label of the first subscription without its marker:
  "(NCE) Product X" and "Product X" give one product named "Product X".
\<close>

theorem nce_variants_merge:
  assumes "vendorName_of a = vendorName_of b"
    and "simple_label (rawProductLabel_of a)" and "simple_label (rawProductLabel_of b)"
    and "label_core (rawProductLabel_of a) = label_core (rawProductLabel_of b)"
  shows "productKey_of a = productKey_of b \<and>
    result_rows
      (aggregateVendorsFromSubscriptions lc (Val [a, b]))
    = [(vendorName_of a, licenses_of a + licenses_of b,
        effectiveAmount_of a + effectiveAmount_of b,
        [(label_remainder (rawProductLabel_of a), licenses_of a + licenses_of b,
          effectiveAmount_of a + effectiveAmount_of b)])] \<and>
    result_rows
      (aggregateVendorsFromSubscriptions lc
         (Val [test_subscription ''nce'' ''(NCE) Product X'' ''(NCE) Product X'' 4 400 400 (Val ''Microsoft''),
               test_subscription ''std'' ''Product X'' ''Product X'' 1 100 100 (Val ''Microsoft'')]))
    = [(''Microsoft'', Fin 5, Fin 500, [(''Product X'', Fin 5, Fin 500)])]"
proof -
  have key: "productKey_of a = productKey_of b"
    and label: "productLabel_of a = label_remainder (rawProductLabel_of a)"
    using assms(2-4) by (rule simple_labels_key)+
  have example: "result_rows
      (aggregateVendorsFromSubscriptions lc
         (Val [test_subscription ''nce'' ''(NCE) Product X'' ''(NCE) Product X'' 4 400 400 (Val ''Microsoft''),
               test_subscription ''std'' ''Product X'' ''Product X'' 1 100 100 (Val ''Microsoft'')]))
    = [(''Microsoft'', Fin 5, Fin 500, [(''Product X'', Fin 5, Fin 500)])]"
    by code_simp
  show ?thesis
    using pair_merges[OF assms(1) key, of lc] key example by (simp add: label)
qed

theorem nce_variants_merge_witness:
  "vendorName_of (test_subscription ''nce'' ''(NCE) Product X'' ''(NCE) Product X'' 4 400 400 (Val ''Microsoft''))
     = vendorName_of (test_subscription ''std'' ''product  x'' ''product  x'' 1 100 100 (Val ''Microsoft'')) \<and>
   simple_label (rawProductLabel_of
     (test_subscription ''nce'' ''(NCE) Product X'' ''(NCE) Product X'' 4 400 400 (Val ''Microsoft''))) \<and>
   simple_label (rawProductLabel_of
     (test_subscription ''std'' ''product  x'' ''product  x'' 1 100 100 (Val ''Microsoft''))) \<and>
   label_core (rawProductLabel_of
     (test_subscription ''nce'' ''(NCE) Product X'' ''(NCE) Product X'' 4 400 400 (Val ''Microsoft'')))
     = label_core (rawProductLabel_of
     (test_subscription ''std'' ''product  x'' ''product  x'' 1 100 100 (Val ''Microsoft''))) \<and>
   result_rows
      (aggregateVendorsFromSubscriptions compare_code_units
         (Val [test_subscription ''nce'' ''(NCE) Product X'' ''(NCE) Product X'' 4 400 400 (Val ''Microsoft''),
               test_subscription ''std'' ''product  x'' ''product  x'' 1 100 100 (Val ''Microsoft'')]))
    = [(''Microsoft'', Fin 5, Fin 500, [(''Product X'', Fin 5, Fin 500)])]"
proof -
  let ?a = "test_subscription ''nce'' ''(NCE) Product X'' ''(NCE) Product X'' 4 400 400 (Val ''Microsoft'')"
  let ?b = "test_subscription ''std'' ''product  x'' ''product  x'' 1 100 100 (Val ''Microsoft'')"
  have h1: "vendorName_of ?a = vendorName_of ?b" by code_simp
  have h2: "simple_label (rawProductLabel_of ?a)" by code_simp
  have h3: "simple_label (rawProductLabel_of ?b)" by code_simp
  have h4: "label_core (rawProductLabel_of ?a) = label_core (rawProductLabel_of ?b)" by code_simp
  have rhs: "[(vendorName_of ?a, licenses_of ?a + licenses_of ?b,
        effectiveAmount_of ?a + effectiveAmount_of ?b,
        [(label_remainder (rawProductLabel_of ?a), licenses_of ?a + licenses_of ?b,
          effectiveAmount_of ?a + effectiveAmount_of ?b)])]
     = [(''Microsoft'', Fin 5, Fin 500, [(''Product X'', Fin 5, Fin 500)])]"
    by code_simp
  from nce_variants_merge[OF h1 h2 h3 h4, of compare_code_units]
  have "result_rows
      (aggregateVendorsFromSubscriptions compare_code_units (Val [?a, ?b]))
    = [(vendorName_of ?a, licenses_of ?a + licenses_of ?b,
        effectiveAmount_of ?a + effectiveAmount_of ?b,
        [(label_remainder (rawProductLabel_of ?a), licenses_of ?a + licenses_of ?b,
          effectiveAmount_of ?a + effectiveAmount_of ?b)])]"
    by (rule conjunct2[THEN conjunct1])
  then have "result_rows
      (aggregateVendorsFromSubscriptions compare_code_units (Val [?a, ?b]))
    = [(''Microsoft'', Fin 5, Fin 500, [(''Product X'', Fin 5, Fin 500)])]"
    using rhs by (rule trans)
  with h1 h2 h3 h4 show ?thesis
    by (intro conjI)
qed

theorem nce_variants_split_counterexample:
  "vendorName_of (test_subscription ''a'' ''(NCE) (NCE) (NCE) X'' [] 1 10 10 (Val ''Microsoft''))
     = vendorName_of (test_subscription ''b'' ''(NCE) (NCE) X'' [] 1 10 10 (Val ''Microsoft'')) \<and>
   result_names
     (aggregateVendorsFromSubscriptions compare_code_units
        (Val [test_subscription ''a'' ''(NCE) (NCE) (NCE) X'' [] 1 10 10 (Val ''Microsoft''),
              test_subscription ''b'' ''(NCE) (NCE) X'' [] 1 10 10 (Val ''Microsoft'')]))
     = [[''(NCE) (NCE) X'', ''(NCE) X'']] \<and>
   result_names
     (aggregateVendorsFromSubscriptions compare_code_units
        (Val [test_subscription ''c'' ''(NCE)'' [] 1 10 10 (Val ''Microsoft''),
              test_subscription ''d'' '' '' [] 1 10 10 (Val ''Microsoft'')]))
     = [[[], ''(NCE)'']]"
  by code_simp




subsection \<open>Discount key and grouping key in a result\<close>

lemma same_key_same_product:
  assumes av: "av \<in> set (aggregateVendorsFromSubscriptions lc (Val subs))"
    and p: "p \<in> set (products av)" and q: "q \<in> set (products av)"
    and k: "normalizeLabel (displayName p) = normalizeLabel (displayName q)"
  shows "p = q"
proof -
  from av obtain ve where ve: "map_of (foldl sub_step [] subs) (vendorName av) = Some ve"
    and av_eq: "av = finish_vendor lc ve"
    by (rule result_vendor)
  from ve p obtain pe
    where pe: "bucket (foldl sub_step [] subs) (vendorName av) (normalizeLabel (displayName p)) = Some pe"
      and p_eq: "p = finish_product lc pe"
    unfolding av_eq by (rule result_product)
  from ve q obtain qe
    where qe: "bucket (foldl sub_step [] subs) (vendorName av) (normalizeLabel (displayName q)) = Some qe"
      and q_eq: "q = finish_product lc qe"
    unfolding av_eq by (rule result_product)
  from pe qe k have "pe = qe" by simp
  then show ?thesis by (simp add: p_eq q_eq)
qed

text \<open>
  C3 (amended). For every vendor name and every pair of product labels, the discount key
  (vendor and product joined with "::" and lower-cased) identifies the two labels exactly
  when they are equal up to letter case. Labels that the discount key identifies are also
  identified by the grouping key of the aggregation, for the hooks and for the service,
  which trims the names first. The converse holds for labels that the grouping
  normalization only lower-cases, and among the display names of the products of one
  vendor in one result of the aggregation; it fails in general, because the grouping key
  also strips the marker and squashes white space.
\<close>

theorem discount_key_refines_grouping_key:
  "(makeProductKey (Val v) (Val p1) = makeProductKey (Val v) (Val p2))
      = (toLowerCase p1 = toLowerCase p2) \<and>
   (makeProductKey (Val v) (Val p1) = makeProductKey (Val v) (Val p2)
      \<longrightarrow> normalizeLabel p1 = normalizeLabel p2) \<and>
   (service_product_key v p1 = service_product_key v p2
      \<longrightarrow> normalizeLabel p1 = normalizeLabel p2) \<and>
   (normalizeLabel p1 = toLowerCase p1 \<and> normalizeLabel p2 = toLowerCase p2 \<longrightarrow>
      (makeProductKey (Val v) (Val p1) = makeProductKey (Val v) (Val p2))
        = (normalizeLabel p1 = normalizeLabel p2)) \<and>
   (\<forall>av \<in> set (aggregateVendorsFromSubscriptions lc (Val subs)).
      \<forall>p \<in> set (products av). \<forall>q \<in> set (products av).
        (makeProductKey (Val (vendorName av)) (Val (displayName p))
           = makeProductKey (Val (vendorName av)) (Val (displayName q)))
          = (normalizeLabel (displayName p) = normalizeLabel (displayName q)))"
proof -
  have svc: "normalizeLabel p1 = normalizeLabel p2"
    if "service_product_key v p1 = service_product_key v p2"
  proof -
    from that have "toLowerCase (trim p1) = toLowerCase (trim p2)"
      by (simp add: service_product_key_def makeProductKey_eq)
    then have "normalizeLabel (trim p1) = normalizeLabel (trim p2)"
      by (rule lower_eq_normalize)
    then show ?thesis
      by (simp add: normalizeLabel_trim)
  qed
  have labels: "(makeProductKey (Val v) (Val p1) = makeProductKey (Val v) (Val p2))
      = (toLowerCase p1 = toLowerCase p2) \<and>
   (makeProductKey (Val v) (Val p1) = makeProductKey (Val v) (Val p2)
      \<longrightarrow> normalizeLabel p1 = normalizeLabel p2) \<and>
   (service_product_key v p1 = service_product_key v p2
      \<longrightarrow> normalizeLabel p1 = normalizeLabel p2) \<and>
   (normalizeLabel p1 = toLowerCase p1 \<and> normalizeLabel p2 = toLowerCase p2 \<longrightarrow>
      (makeProductKey (Val v) (Val p1) = makeProductKey (Val v) (Val p2))
        = (normalizeLabel p1 = normalizeLabel p2))"
    using svc lower_eq_normalize[of p1 p2] by (auto simp add: makeProductKey_eq)
  have result: "(makeProductKey (Val (vendorName av)) (Val (displayName p))
           = makeProductKey (Val (vendorName av)) (Val (displayName q)))
          = (normalizeLabel (displayName p) = normalizeLabel (displayName q))"
    if "av \<in> set (aggregateVendorsFromSubscriptions lc (Val subs))"
      and "p \<in> set (products av)" and "q \<in> set (products av)" for av p q
  proof
    assume "makeProductKey (Val (vendorName av)) (Val (displayName p))
           = makeProductKey (Val (vendorName av)) (Val (displayName q))"
    then have "toLowerCase (displayName p) = toLowerCase (displayName q)"
      by (simp add: makeProductKey_eq)
    then show "normalizeLabel (displayName p) = normalizeLabel (displayName q)"
      by (rule lower_eq_normalize)
  next
    assume "normalizeLabel (displayName p) = normalizeLabel (displayName q)"
    with that have "p = q"
      by (rule same_key_same_product)
    then show "makeProductKey (Val (vendorName av)) (Val (displayName p))
           = makeProductKey (Val (vendorName av)) (Val (displayName q))"
      by simp
  qed
  show ?thesis
    using labels result by blast
qed

theorem discount_key_refines_grouping_key_witness:
  "makeProductKey (Val ''Microsoft'') (Val ''Product X'')
     = makeProductKey (Val ''Microsoft'') (Val ''PRODUCT X'') \<and>
   service_product_key ''Microsoft'' ''Product X''
     = service_product_key ''Microsoft'' ''PRODUCT X'' \<and>
   normalizeLabel ''Product X'' = toLowerCase ''Product X'' \<and>
   normalizeLabel ''PRODUCT X'' = toLowerCase ''PRODUCT X'' \<and>
   normalizeLabel ''Product X'' = normalizeLabel ''PRODUCT X'' \<and>
   \<lparr> vendorName = ''Keepit'', totalLicenses = Fin 2, totalAmount = Fin 120,
      products = [\<lparr> displayName = ''Keepit Backup'', licenses = Fin 2, prod_amount = Fin 120,
                    costAmount = Fin 50, prod_billing = Undefined, prod_commitment = Undefined,
                    details = [] \<rparr>] \<rparr>
     \<in> set (aggregateVendorsFromSubscriptions compare_code_units (Val retail_fixture)) \<and>
   (makeProductKey (Val ''Keepit'') (Val ''Keepit Backup'')
      = makeProductKey (Val ''Keepit'') (Val ''Keepit Backup''))
     = (normalizeLabel ''Keepit Backup'' = normalizeLabel ''Keepit Backup'')"
proof -
  let ?p = "\<lparr> displayName = ''Keepit Backup'', licenses = Fin 2, prod_amount = Fin 120,
                    costAmount = Fin 50, prod_billing = Undefined, prod_commitment = Undefined,
                    details = [] \<rparr>"
  let ?v = "\<lparr> vendorName = ''Keepit'', totalLicenses = Fin 2, totalAmount = Fin 120,
      products = [?p] \<rparr>"
  have k: "makeProductKey (Val ''Microsoft'') (Val ''Product X'')
     = makeProductKey (Val ''Microsoft'') (Val ''PRODUCT X'')"
    by code_simp
  have s: "service_product_key ''Microsoft'' ''Product X''
     = service_product_key ''Microsoft'' ''PRODUCT X''"
    by code_simp
  have n: "normalizeLabel ''Product X'' = toLowerCase ''Product X''"
    "normalizeLabel ''PRODUCT X'' = toLowerCase ''PRODUCT X''"
    by code_simp+
  have mem: "?v \<in> set (aggregateVendorsFromSubscriptions compare_code_units (Val retail_fixture))"
    by code_simp
  have p: "?p \<in> set (products ?v)"
    by simp
  note inst = discount_key_refines_grouping_key[of "''Microsoft''" "''Product X''" "''PRODUCT X''"
      compare_code_units retail_fixture]
  from inst k have g: "normalizeLabel ''Product X'' = normalizeLabel ''PRODUCT X''"
    by blast
  from inst mem p
  have "(makeProductKey (Val (vendorName ?v)) (Val (displayName ?p))
           = makeProductKey (Val (vendorName ?v)) (Val (displayName ?p)))
          = (normalizeLabel (displayName ?p) = normalizeLabel (displayName ?p))"
    by blast
  then have r: "(makeProductKey (Val ''Keepit'') (Val ''Keepit Backup'')
      = makeProductKey (Val ''Keepit'') (Val ''Keepit Backup''))
     = (normalizeLabel ''Keepit Backup'' = normalizeLabel ''Keepit Backup'')"
    by simp
  from k s n g mem r show ?thesis
    by (intro conjI)
qed

theorem discount_key_coarser_counterexample:
  "normalizeLabel ''Product  X'' = normalizeLabel ''Product X'' \<and>
   makeProductKey (Val ''Microsoft'') (Val ''Product  X'')
     \<noteq> makeProductKey (Val ''Microsoft'') (Val ''Product X'') \<and>
   service_product_key ''Microsoft'' ''Product  X''
     \<noteq> service_product_key ''Microsoft'' ''Product X''"
  by code_simp

subsection \<open>Response mapper\<close>

lemma chain_eq:
  "mapSubscriptions line tenant =
     first_non_empty [from_subscriptions line tenant, from_entries line tenant,
                      from_connectors line tenant, from_tenant line tenant]"
  by (simp add: mapSubscriptions_def from_subscriptions_def from_entries_def
        from_connectors_def from_tenant_def Let_def)

lemma strategy_lengths:
  "length (from_subscriptions line tenant) = length (nullish (ta_subscriptions tenant) [])"
  "length (from_entries line tenant) = length (nullish (ta_entries tenant) [])"
  "length (from_connectors line tenant) = length (nullish (ta_connectors tenant) [])"
  "length (from_tenant line tenant) = 1"
  by (simp_all add: from_subscriptions_def from_entries_def from_connectors_def from_tenant_def)

lemma connector_amount:
  "sub_amount (subscription_from_connector line tenant
      (i, c\<lparr> ca_amount := Val a \<rparr>)) = Val a"
  "sub_amount (subscription_from_connector line tenant
      (i, c\<lparr> ca_amount := Undefined, ca_quantity := Val q, ca_unitPrice := Val u \<rparr>))
     = Val (js_times q u)"
  by (simp_all add: subscription_from_connector_def Let_def)

lemma tenants_subscriptions:
  "map tb_subscriptions (map_tenants lines)
     = concat (map (\<lambda>line. map (mapSubscriptions line) (line_tenants line)) lines)"
  by (induction lines) (simp_all add: map_tenants_def map_tenant_def comp_def)

lemma length_entries [simp]:
  "length (mapSubscriptionEntries es i d) = length (nullish es [])"
  by (simp add: mapSubscriptionEntries_def)

lemma entries_Nil [simp]:
  "(mapSubscriptionEntries es i d = []) = (nullish es [] = [])"
  by (cases "nullish es []") (simp_all add: mapSubscriptionEntries_def)

lemma subscriptions_content:
  "from_subscriptions line tenant =
     map (\<lambda>sub.
            \<lparr> sub_id = sa_id sub, sub_description = sa_description sub,
              sub_nickname = sa_nickname sub,
              sub_licensQuantity =
                Val (nullish (sa_licensQuantity sub)
                       (num_or (sumEntryLicenses
                                  (mapSubscriptionEntries (sa_entries sub) (sa_id sub)
                                     (Val (sa_description sub))))
                          (Fin (of_nat (length (nullish (sa_entries sub) [])))))),
              sub_amount = sa_amount sub, sub_retailAmount = sa_retailAmount sub,
              sub_billingTypeId = la_billingTypeId line,
              sub_billingTypeDescription = la_billingTypeDescription line,
              sub_entries =
                Val (mapSubscriptionEntries (sa_entries sub) (sa_id sub)
                       (Val (sa_description sub))) \<rparr>)
       (nullish (ta_subscriptions tenant) [])"
  by (simp add: from_subscriptions_def subscription_from_api_def Let_def)

lemma entries_content:
  "from_entries line tenant =
     map (\<lambda>ie.
            \<lparr> sub_id =
                nullish (nullish_chain (ea_productId (snd ie)) (ea_skuId (snd ie)))
                  (ta_id tenant @ ''-entry-'' @ show_nat (fst ie)),
              sub_description =
                nullish (nullish_chain (ea_description (snd ie))
                          (nullish_chain (ea_nickname (snd ie))
                            (nullish_chain (ta_productDescription tenant)
                              (nullish_chain (la_description line)
                                 (la_billingTypeDescription line)))))
                  ''Item'',
              sub_nickname =
                nullish (nullish_chain (ea_nickname (snd ie))
                          (nullish_chain (ea_description (snd ie))
                            (nullish_chain (ta_productDescription tenant)
                              (nullish_chain (la_description line)
                                 (la_billingTypeDescription line)))))
                  ''Item'',
              sub_licensQuantity =
                Val (nullish (nullish_chain (ea_licensQuantity (snd ie)) (ea_quantity (snd ie)))
                       (Fin 0)),
              sub_amount = Val (nullish (ea_amount (snd ie)) (Fin 0)),
              sub_retailAmount = Val (nullish (ea_retailAmount (snd ie)) (Fin 0)),
              sub_billingTypeId = la_billingTypeId line,
              sub_billingTypeDescription = la_billingTypeDescription line,
              sub_entries =
                Val [buildEntry (snd ie)
                       (nullish (nullish_chain (ea_productId (snd ie)) (ea_skuId (snd ie)))
                          (ta_id tenant @ ''-entry-'' @ show_nat (fst ie)))
                       (nullish (nullish_chain (ea_description (snd ie))
                          (nullish_chain (ea_nickname (snd ie))
                            (nullish_chain (ta_productDescription tenant)
                              (nullish_chain (la_description line)
                                 (la_billingTypeDescription line)))))
                       ''Item'')] \<rparr>)
       (enumerate 0 (nullish (ta_entries tenant) []))"
  unfolding from_entries_def
proof (rule map_cong[OF refl])
  fix ie
  show "subscription_from_entry line tenant ie = 
            \<lparr> sub_id =
                nullish (nullish_chain (ea_productId (snd ie)) (ea_skuId (snd ie)))
                  (ta_id tenant @ ''-entry-'' @ show_nat (fst ie)),
              sub_description =
                nullish (nullish_chain (ea_description (snd ie))
                          (nullish_chain (ea_nickname (snd ie))
                            (nullish_chain (ta_productDescription tenant)
                              (nullish_chain (la_description line)
                                 (la_billingTypeDescription line)))))
                  ''Item'',
              sub_nickname =
                nullish (nullish_chain (ea_nickname (snd ie))
                          (nullish_chain (ea_description (snd ie))
                            (nullish_chain (ta_productDescription tenant)
                              (nullish_chain (la_description line)
                                 (la_billingTypeDescription line)))))
                  ''Item'',
              sub_licensQuantity =
                Val (nullish (nullish_chain (ea_licensQuantity (snd ie)) (ea_quantity (snd ie)))
                       (Fin 0)),
              sub_amount = Val (nullish (ea_amount (snd ie)) (Fin 0)),
              sub_retailAmount = Val (nullish (ea_retailAmount (snd ie)) (Fin 0)),
              sub_billingTypeId = la_billingTypeId line,
              sub_billingTypeDescription = la_billingTypeDescription line,
              sub_entries =
                Val [buildEntry (snd ie)
                       (nullish (nullish_chain (ea_productId (snd ie)) (ea_skuId (snd ie)))
                          (ta_id tenant @ ''-entry-'' @ show_nat (fst ie)))
                       (nullish (nullish_chain (ea_description (snd ie))
                          (nullish_chain (ea_nickname (snd ie))
                            (nullish_chain (ta_productDescription tenant)
                              (nullish_chain (la_description line)
                                 (la_billingTypeDescription line)))))
                       ''Item'')] \<rparr>"
    by (cases "ea_nickname (snd ie)"; cases "ea_description (snd ie)")
       (simp_all add: subscription_from_entry_def Let_def)
qed


lemma raw_value:
  "nullish (nullish_chain (nullish_chain a b) Undefined) d = nullish (nullish_chain a b) d"
  by (cases a; cases b) simp_all

lemma raw_product:
  "(if is_defined (nullish_chain (nullish_chain a b) Undefined)
       \<and> is_defined (nullish_chain (nullish_chain c d) Undefined)
    then js_times (nullish (nullish_chain (nullish_chain a b) Undefined) (Fin 0))
           (nullish (nullish_chain (nullish_chain c d) Undefined) (Fin 0))
    else Fin 0)
   = product_or_zero (nullish_chain a b) (nullish_chain c d)"
  by (cases a; cases b; cases c; cases d) (simp_all add: product_or_zero_def)

lemma connectors_content:
  "map (\<lambda>s. s\<lparr> sub_entries := Val [] \<rparr>) (from_connectors line tenant) =
     map (\<lambda>ic.
            \<lparr> sub_id =
                nullish (nullish_chain (ca_id (snd ic)) (ta_productId tenant))
                  (ta_id tenant @ ''-connector-'' @ show_nat (fst ic)),
              sub_description =
                nullish (nullish_chain (ca_description (snd ic))
                          (nullish_chain (ta_productDescription tenant)
                            (nullish_chain (la_description line)
                               (la_billingTypeDescription line))))
                  ''Product'',
              sub_nickname =
                nullish (nullish_chain (ca_description (snd ic))
                          (nullish_chain (ta_productDescription tenant)
                            (nullish_chain (la_description line)
                               (la_billingTypeDescription line))))
                  ''Product'',
              sub_licensQuantity =
                Val (nullish (nullish_chain (ca_quantity (snd ic)) (ta_quantity tenant)) (Fin 0)),
              sub_amount =
                Val (nullish (ca_amount (snd ic))
                       (product_or_zero
                          (nullish_chain (ca_quantity (snd ic)) (ta_quantity tenant))
                          (nullish_chain (ca_unitPrice (snd ic)) (ta_unitPrice tenant)))),
              sub_retailAmount =
                Val (nullish (ca_retailAmount (snd ic))
                       (product_or_zero
                          (nullish_chain (ca_quantity (snd ic)) (ta_quantity tenant))
                          (nullish_chain (ca_retailUnitPrice (snd ic))
                             (ta_retailUnitPrice tenant)))),
              sub_billingTypeId = la_billingTypeId line,
              sub_billingTypeDescription = la_billingTypeDescription line,
              sub_entries = Val [] \<rparr>)
       (enumerate 0 (nullish (ta_connectors tenant) []))"
  unfolding from_connectors_def map_map
  by (rule map_cong[OF refl])
     (simp add: subscription_from_connector_def Let_def raw_value raw_product
        split del: if_split)

lemma tenant_content:
  "map (\<lambda>s. s\<lparr> sub_entries := Val [] \<rparr>) (from_tenant line tenant) =
     [\<lparr> sub_id = nullish (ta_productId tenant) (ta_id tenant),
        sub_description =
          nullish (nullish_chain (ta_productDescription tenant)
                    (nullish_chain (la_description line)
                      (nullish_chain (la_billingTypeDescription line) (ta_name tenant))))
            ''Item'',
        sub_nickname =
          nullish (nullish_chain (ta_productDescription tenant)
                    (nullish_chain (la_description line)
                      (nullish_chain (la_billingTypeDescription line) (ta_name tenant))))
            ''Item'',
        sub_licensQuantity = Val (nullish (ta_quantity tenant) (Fin 0)),
        sub_amount = Val (nullish (ta_amount tenant) (Fin 0)),
        sub_retailAmount = Val (nullish (ta_retailAmount tenant) (Fin 0)),
        sub_billingTypeId = la_billingTypeId line,
        sub_billingTypeDescription = la_billingTypeDescription line,
        sub_entries = Val [] \<rparr>]"
  by (simp add: from_tenant_def subscription_from_tenant_def Let_def)

lemma entry_mirrors_entry: "entry_mirrors (subscription_from_entry line tenant ie)"
  by (cases "ea_nickname (snd ie)"; cases "ea_description (snd ie)";
      cases "ea_licensQuantity (snd ie)")
     (simp_all add: entry_mirrors_def subscription_from_entry_def buildEntry_def Let_def)

lemma entry_mirrors_connector: "entry_mirrors (subscription_from_connector line tenant ic)"
  by (simp add: entry_mirrors_def subscription_from_connector_def buildEntry_def Let_def
        empty_entry_def)

lemma entry_mirrors_tenant: "entry_mirrors (subscription_from_tenant line tenant)"
  by (cases "ta_quantity tenant"; cases "ta_amount tenant"; cases "ta_retailAmount tenant")
     (simp_all add: entry_mirrors_def subscription_from_tenant_def buildEntry_def Let_def
        empty_entry_def)

lemma synthetic_entries:
  "list_all entry_mirrors (from_entries line tenant)"
  "list_all entry_mirrors (from_connectors line tenant)"
  "list_all entry_mirrors (from_tenant line tenant)"
  by (simp_all add: list_all_iff from_entries_def from_connectors_def from_tenant_def
        entry_mirrors_entry entry_mirrors_connector entry_mirrors_tenant)


text \<open>
  C5. For every tenant of every line of the raw payload, the mapper derives the
  subscription list by four strategies tried in order, the first result that is not empty
  being taken. The first is the explicit subscriptions array: one subscription per
  element, with its id, description, nickname and amounts, the billing type of the line, its
  entries, and as license count the explicit one, else the sum over its entries, else the
  number of entries. The second is the flat entries array: one synthetic subscription per
  entry, identified by the product id, the SKU id or the tenant id with the index of the
  entry. The third is the connectors array: one subscription per connector, whose amount
  is the explicit amount when there is one and otherwise quantity times unit price when
  both are given (by the connector or the tenant), else 0. The last is a single
  subscription made of the fields of the tenant itself. A synthetic subscription has
  exactly one entry, which repeats its description, nickname, license count and amounts.
  A later strategy is used only when all earlier ones gave the empty list, and the result
  is never empty.
\<close>

theorem mapSubscriptions_chain:
  "mapSubscriptions line tenant =
     first_non_empty [from_subscriptions line tenant, from_entries line tenant,
                      from_connectors line tenant, from_tenant line tenant] \<and>
   mapSubscriptions line tenant \<noteq> [] \<and>
   (from_subscriptions line tenant \<noteq> [] \<longrightarrow>
      mapSubscriptions line tenant = from_subscriptions line tenant) \<and>
   (from_subscriptions line tenant = [] \<and> from_entries line tenant \<noteq> [] \<longrightarrow>
      mapSubscriptions line tenant = from_entries line tenant) \<and>
   (from_subscriptions line tenant = [] \<and> from_entries line tenant = []
      \<and> from_connectors line tenant \<noteq> [] \<longrightarrow>
      mapSubscriptions line tenant = from_connectors line tenant) \<and>
   (from_subscriptions line tenant = [] \<and> from_entries line tenant = []
      \<and> from_connectors line tenant = [] \<longrightarrow>
      mapSubscriptions line tenant = from_tenant line tenant) \<and>
   from_subscriptions line tenant =
     map (\<lambda>sub.
            \<lparr> sub_id = sa_id sub, sub_description = sa_description sub,
              sub_nickname = sa_nickname sub,
              sub_licensQuantity =
                Val (nullish (sa_licensQuantity sub)
                       (num_or (sumEntryLicenses
                                  (mapSubscriptionEntries (sa_entries sub) (sa_id sub)
                                     (Val (sa_description sub))))
                          (Fin (of_nat (length (nullish (sa_entries sub) [])))))),
              sub_amount = sa_amount sub, sub_retailAmount = sa_retailAmount sub,
              sub_billingTypeId = la_billingTypeId line,
              sub_billingTypeDescription = la_billingTypeDescription line,
              sub_entries =
                Val (mapSubscriptionEntries (sa_entries sub) (sa_id sub)
                       (Val (sa_description sub))) \<rparr>)
       (nullish (ta_subscriptions tenant) []) \<and>
   from_entries line tenant =
     map (\<lambda>ie.
            \<lparr> sub_id =
                nullish (nullish_chain (ea_productId (snd ie)) (ea_skuId (snd ie)))
                  (ta_id tenant @ ''-entry-'' @ show_nat (fst ie)),
              sub_description =
                nullish (nullish_chain (ea_description (snd ie))
                          (nullish_chain (ea_nickname (snd ie))
                            (nullish_chain (ta_productDescription tenant)
                              (nullish_chain (la_description line)
                                 (la_billingTypeDescription line)))))
                  ''Item'',
              sub_nickname =
                nullish (nullish_chain (ea_nickname (snd ie))
                          (nullish_chain (ea_description (snd ie))
                            (nullish_chain (ta_productDescription tenant)
                              (nullish_chain (la_description line)
                                 (la_billingTypeDescription line)))))
                  ''Item'',
              sub_licensQuantity =
                Val (nullish (nullish_chain (ea_licensQuantity (snd ie)) (ea_quantity (snd ie)))
                       (Fin 0)),
              sub_amount = Val (nullish (ea_amount (snd ie)) (Fin 0)),
              sub_retailAmount = Val (nullish (ea_retailAmount (snd ie)) (Fin 0)),
              sub_billingTypeId = la_billingTypeId line,
              sub_billingTypeDescription = la_billingTypeDescription line,
              sub_entries =
                Val [buildEntry (snd ie)
                       (nullish (nullish_chain (ea_productId (snd ie)) (ea_skuId (snd ie)))
                          (ta_id tenant @ ''-entry-'' @ show_nat (fst ie)))
                       (nullish (nullish_chain (ea_description (snd ie))
                          (nullish_chain (ea_nickname (snd ie))
                            (nullish_chain (ta_productDescription tenant)
                              (nullish_chain (la_description line)
                                 (la_billingTypeDescription line)))))
                       ''Item'')] \<rparr>)
       (enumerate 0 (nullish (ta_entries tenant) [])) \<and>
   map (\<lambda>s. s\<lparr> sub_entries := Val [] \<rparr>) (from_connectors line tenant) =
     map (\<lambda>ic.
            \<lparr> sub_id =
                nullish (nullish_chain (ca_id (snd ic)) (ta_productId tenant))
                  (ta_id tenant @ ''-connector-'' @ show_nat (fst ic)),
              sub_description =
                nullish (nullish_chain (ca_description (snd ic))
                          (nullish_chain (ta_productDescription tenant)
                            (nullish_chain (la_description line)
                               (la_billingTypeDescription line))))
                  ''Product'',
              sub_nickname =
                nullish (nullish_chain (ca_description (snd ic))
                          (nullish_chain (ta_productDescription tenant)
                            (nullish_chain (la_description line)
                               (la_billingTypeDescription line))))
                  ''Product'',
              sub_licensQuantity =
                Val (nullish (nullish_chain (ca_quantity (snd ic)) (ta_quantity tenant)) (Fin 0)),
              sub_amount =
                Val (nullish (ca_amount (snd ic))
                       (product_or_zero
                          (nullish_chain (ca_quantity (snd ic)) (ta_quantity tenant))
                          (nullish_chain (ca_unitPrice (snd ic)) (ta_unitPrice tenant)))),
              sub_retailAmount =
                Val (nullish (ca_retailAmount (snd ic))
                       (product_or_zero
                          (nullish_chain (ca_quantity (snd ic)) (ta_quantity tenant))
                          (nullish_chain (ca_retailUnitPrice (snd ic))
                             (ta_retailUnitPrice tenant)))),
              sub_billingTypeId = la_billingTypeId line,
              sub_billingTypeDescription = la_billingTypeDescription line,
              sub_entries = Val [] \<rparr>)
       (enumerate 0 (nullish (ta_connectors tenant) [])) \<and>
   map (\<lambda>s. s\<lparr> sub_entries := Val [] \<rparr>) (from_tenant line tenant) =
     [\<lparr> sub_id = nullish (ta_productId tenant) (ta_id tenant),
        sub_description =
          nullish (nullish_chain (ta_productDescription tenant)
                    (nullish_chain (la_description line)
                      (nullish_chain (la_billingTypeDescription line) (ta_name tenant))))
            ''Item'',
        sub_nickname =
          nullish (nullish_chain (ta_productDescription tenant)
                    (nullish_chain (la_description line)
                      (nullish_chain (la_billingTypeDescription line) (ta_name tenant))))
            ''Item'',
        sub_licensQuantity = Val (nullish (ta_quantity tenant) (Fin 0)),
        sub_amount = Val (nullish (ta_amount tenant) (Fin 0)),
        sub_retailAmount = Val (nullish (ta_retailAmount tenant) (Fin 0)),
        sub_billingTypeId = la_billingTypeId line,
        sub_billingTypeDescription = la_billingTypeDescription line,
        sub_entries = Val [] \<rparr>] \<and>
   length (from_subscriptions line tenant) = length (nullish (ta_subscriptions tenant) []) \<and>
   length (from_entries line tenant) = length (nullish (ta_entries tenant) []) \<and>
   length (from_connectors line tenant) = length (nullish (ta_connectors tenant) []) \<and>
   sub_amount (subscription_from_connector line tenant (i, c\<lparr> ca_amount := Val a \<rparr>)) = Val a \<and>
   sub_amount (subscription_from_connector line tenant
      (i, c\<lparr> ca_amount := Undefined, ca_quantity := Val q, ca_unitPrice := Val u \<rparr>))
     = Val (js_times q u) \<and>
   list_all entry_mirrors (from_entries line tenant) \<and>
   list_all entry_mirrors (from_connectors line tenant) \<and>
   list_all entry_mirrors (from_tenant line tenant) \<and>
   map tb_subscriptions (map_tenants lines)
     = concat (map (\<lambda>l. map (mapSubscriptions l) (line_tenants l)) lines) \<and>
   mapSubscriptions example_line
     (example_tenant\<lparr> ta_subscriptions := Val [example_subscription],
                       ta_entries := Val [example_entry],
                       ta_connectors := Val [example_connector] \<rparr>)
   = [\<lparr> sub_id = ''s-1'', sub_description = ''Plan A'', sub_nickname = ''A'',
        sub_licensQuantity = Val (Fin 2), sub_amount = Val (Fin 60),
        sub_retailAmount = Val (Fin 90), sub_billingTypeId = Val ''MS'',
        sub_billingTypeDescription = Val ''Microsoft'',
        sub_entries =
          Val [\<lparr> ent_productId = ''sku-9'', ent_skuId = ''sku-9'',
                 ent_description = Val ''Seat'', ent_nickname = ''Seat'',
                 ent_licensQuantity = Val (Fin 2), ent_invoicingType = Undefined,
                 ent_startDate = Undefined, ent_endDate = Undefined,
                 ent_quantity = Val (Fin 2), ent_days = Undefined, ent_unitPrice = Undefined,
                 ent_retailUnitPrice = Undefined, ent_amount = Val (Fin 30),
                 ent_retailAmount = Val (Fin 0), ent_billing = Val ''Monthly'',
                 ent_commitment = Undefined, ent_billingStartDate = Undefined,
                 ent_billingEndDate = Undefined, ent_commitmentStartDate = Undefined,
                 ent_commitmentEndDate = Undefined \<rparr>] \<rparr>] \<and>
   mapSubscriptions example_line
     (example_tenant\<lparr> ta_subscriptions := Val [],
                       ta_entries := Val [example_entry],
                       ta_connectors := Val [example_connector] \<rparr>)
   = [\<lparr> sub_id = ''sku-9'', sub_description = ''Seat'', sub_nickname = ''Seat'',
        sub_licensQuantity = Val (Fin 2), sub_amount = Val (Fin 30),
        sub_retailAmount = Val (Fin 0), sub_billingTypeId = Val ''MS'',
        sub_billingTypeDescription = Val ''Microsoft'',
        sub_entries =
          Val [\<lparr> ent_productId = ''sku-9'', ent_skuId = ''sku-9'',
                 ent_description = Val ''Seat'', ent_nickname = ''Seat'',
                 ent_licensQuantity = Val (Fin 2), ent_invoicingType = Undefined,
                 ent_startDate = Undefined, ent_endDate = Undefined,
                 ent_quantity = Val (Fin 2), ent_days = Undefined, ent_unitPrice = Undefined,
                 ent_retailUnitPrice = Undefined, ent_amount = Val (Fin 30),
                 ent_retailAmount = Val (Fin 0), ent_billing = Val ''Monthly'',
                 ent_commitment = Undefined, ent_billingStartDate = Undefined,
                 ent_billingEndDate = Undefined, ent_commitmentStartDate = Undefined,
                 ent_commitmentEndDate = Undefined \<rparr>] \<rparr>] \<and>
   mapSubscriptions example_line
     (example_tenant\<lparr> ta_entries := Val [], ta_connectors := Val [example_connector] \<rparr>)
   = [\<lparr> sub_id = ''conn-1'', sub_description = ''Connector'', sub_nickname = ''Connector'',
        sub_licensQuantity = Val (Fin 3), sub_amount = Val (Fin 21),
        sub_retailAmount = Val (Fin 0), sub_billingTypeId = Val ''MS'',
        sub_billingTypeDescription = Val ''Microsoft'',
        sub_entries =
          Val [\<lparr> ent_productId = ''conn-1'', ent_skuId = ''conn-1'',
                 ent_description = Val ''Connector'', ent_nickname = ''Connector'',
                 ent_licensQuantity = Val (Fin 3), ent_invoicingType = Undefined,
                 ent_startDate = Undefined, ent_endDate = Undefined,
                 ent_quantity = Val (Fin 3), ent_days = Undefined,
                 ent_unitPrice = Val (Fin 7), ent_retailUnitPrice = Val (Fin 0),
                 ent_amount = Val (Fin 21), ent_retailAmount = Val (Fin 0),
                 ent_billing = Undefined, ent_commitment = Undefined,
                 ent_billingStartDate = Undefined, ent_billingEndDate = Undefined,
                 ent_commitmentStartDate = Undefined,
                 ent_commitmentEndDate = Undefined \<rparr>] \<rparr>] \<and>
   mapSubscriptions example_line example_tenant
   = [\<lparr> sub_id = ''t-1'', sub_description = ''Microsoft licenses'',
        sub_nickname = ''Microsoft licenses'', sub_licensQuantity = Val (Fin 4),
        sub_amount = Val (Fin 100), sub_retailAmount = Val (Fin 150),
        sub_billingTypeId = Val ''MS'', sub_billingTypeDescription = Val ''Microsoft'',
        sub_entries =
          Val [\<lparr> ent_productId = ''t-1'', ent_skuId = ''t-1'',
                 ent_description = Val ''Microsoft licenses'',
                 ent_nickname = ''Microsoft licenses'', ent_licensQuantity = Val (Fin 4),
                 ent_invoicingType = Undefined, ent_startDate = Undefined,
                 ent_endDate = Undefined, ent_quantity = Val (Fin 4), ent_days = Undefined,
                 ent_unitPrice = Val (Fin 25), ent_retailUnitPrice = Undefined,
                 ent_amount = Val (Fin 100), ent_retailAmount = Val (Fin 150),
                 ent_billing = Undefined, ent_commitment = Undefined,
                 ent_billingStartDate = Undefined, ent_billingEndDate = Undefined,
                 ent_commitmentStartDate = Undefined,
                 ent_commitmentEndDate = Undefined \<rparr>] \<rparr>]"
proof -
  have a1: "mapSubscriptions line tenant =
     first_non_empty [from_subscriptions line tenant, from_entries line tenant,
                      from_connectors line tenant, from_tenant line tenant]"
    by (rule chain_eq)
  have a2: "mapSubscriptions line tenant \<noteq> []"
    by (simp add: chain_eq from_tenant_def)
  have a3: "from_subscriptions line tenant \<noteq> [] \<longrightarrow>
      mapSubscriptions line tenant = from_subscriptions line tenant"
    by (simp add: chain_eq)
  have a4: "from_subscriptions line tenant = [] \<and> from_entries line tenant \<noteq> [] \<longrightarrow>
      mapSubscriptions line tenant = from_entries line tenant"
    by (simp add: chain_eq)
  have a5: "from_subscriptions line tenant = [] \<and> from_entries line tenant = []
      \<and> from_connectors line tenant \<noteq> [] \<longrightarrow>
      mapSubscriptions line tenant = from_connectors line tenant"
    by (simp add: chain_eq)
  have a6: "from_subscriptions line tenant = [] \<and> from_entries line tenant = []
      \<and> from_connectors line tenant = [] \<longrightarrow>
      mapSubscriptions line tenant = from_tenant line tenant"
    by (simp add: chain_eq)
  have ex1: "mapSubscriptions example_line
     (example_tenant\<lparr> ta_subscriptions := Val [example_subscription],
                       ta_entries := Val [example_entry],
                       ta_connectors := Val [example_connector] \<rparr>)
   = [\<lparr> sub_id = ''s-1'', sub_description = ''Plan A'', sub_nickname = ''A'',
        sub_licensQuantity = Val (Fin 2), sub_amount = Val (Fin 60),
        sub_retailAmount = Val (Fin 90), sub_billingTypeId = Val ''MS'',
        sub_billingTypeDescription = Val ''Microsoft'',
        sub_entries =
          Val [\<lparr> ent_productId = ''sku-9'', ent_skuId = ''sku-9'',
                 ent_description = Val ''Seat'', ent_nickname = ''Seat'',
                 ent_licensQuantity = Val (Fin 2), ent_invoicingType = Undefined,
                 ent_startDate = Undefined, ent_endDate = Undefined,
                 ent_quantity = Val (Fin 2), ent_days = Undefined, ent_unitPrice = Undefined,
                 ent_retailUnitPrice = Undefined, ent_amount = Val (Fin 30),
                 ent_retailAmount = Val (Fin 0), ent_billing = Val ''Monthly'',
                 ent_commitment = Undefined, ent_billingStartDate = Undefined,
                 ent_billingEndDate = Undefined, ent_commitmentStartDate = Undefined,
                 ent_commitmentEndDate = Undefined \<rparr>] \<rparr>]"
    by code_simp
  have ex2: "mapSubscriptions example_line
     (example_tenant\<lparr> ta_subscriptions := Val [],
                       ta_entries := Val [example_entry],
                       ta_connectors := Val [example_connector] \<rparr>)
   = [\<lparr> sub_id = ''sku-9'', sub_description = ''Seat'', sub_nickname = ''Seat'',
        sub_licensQuantity = Val (Fin 2), sub_amount = Val (Fin 30),
        sub_retailAmount = Val (Fin 0), sub_billingTypeId = Val ''MS'',
        sub_billingTypeDescription = Val ''Microsoft'',
        sub_entries =
          Val [\<lparr> ent_productId = ''sku-9'', ent_skuId = ''sku-9'',
                 ent_description = Val ''Seat'', ent_nickname = ''Seat'',
                 ent_licensQuantity = Val (Fin 2), ent_invoicingType = Undefined,
                 ent_startDate = Undefined, ent_endDate = Undefined,
                 ent_quantity = Val (Fin 2), ent_days = Undefined, ent_unitPrice = Undefined,
                 ent_retailUnitPrice = Undefined, ent_amount = Val (Fin 30),
                 ent_retailAmount = Val (Fin 0), ent_billing = Val ''Monthly'',
                 ent_commitment = Undefined, ent_billingStartDate = Undefined,
                 ent_billingEndDate = Undefined, ent_commitmentStartDate = Undefined,
                 ent_commitmentEndDate = Undefined \<rparr>] \<rparr>]"
    by code_simp
  have ex3: "mapSubscriptions example_line
     (example_tenant\<lparr> ta_entries := Val [], ta_connectors := Val [example_connector] \<rparr>)
   = [\<lparr> sub_id = ''conn-1'', sub_description = ''Connector'', sub_nickname = ''Connector'',
        sub_licensQuantity = Val (Fin 3), sub_amount = Val (Fin 21),
        sub_retailAmount = Val (Fin 0), sub_billingTypeId = Val ''MS'',
        sub_billingTypeDescription = Val ''Microsoft'',
        sub_entries =
          Val [\<lparr> ent_productId = ''conn-1'', ent_skuId = ''conn-1'',
                 ent_description = Val ''Connector'', ent_nickname = ''Connector'',
                 ent_licensQuantity = Val (Fin 3), ent_invoicingType = Undefined,
                 ent_startDate = Undefined, ent_endDate = Undefined,
                 ent_quantity = Val (Fin 3), ent_days = Undefined,
                 ent_unitPrice = Val (Fin 7), ent_retailUnitPrice = Val (Fin 0),
                 ent_amount = Val (Fin 21), ent_retailAmount = Val (Fin 0),
                 ent_billing = Undefined, ent_commitment = Undefined,
                 ent_billingStartDate = Undefined, ent_billingEndDate = Undefined,
                 ent_commitmentStartDate = Undefined,
                 ent_commitmentEndDate = Undefined \<rparr>] \<rparr>]"
    by code_simp
  have ex4: "mapSubscriptions example_line example_tenant
   = [\<lparr> sub_id = ''t-1'', sub_description = ''Microsoft licenses'',
        sub_nickname = ''Microsoft licenses'', sub_licensQuantity = Val (Fin 4),
        sub_amount = Val (Fin 100), sub_retailAmount = Val (Fin 150),
        sub_billingTypeId = Val ''MS'', sub_billingTypeDescription = Val ''Microsoft'',
        sub_entries =
          Val [\<lparr> ent_productId = ''t-1'', ent_skuId = ''t-1'',
                 ent_description = Val ''Microsoft licenses'',
                 ent_nickname = ''Microsoft licenses'', ent_licensQuantity = Val (Fin 4),
                 ent_invoicingType = Undefined, ent_startDate = Undefined,
                 ent_endDate = Undefined, ent_quantity = Val (Fin 4), ent_days = Undefined,
                 ent_unitPrice = Val (Fin 25), ent_retailUnitPrice = Undefined,
                 ent_amount = Val (Fin 100), ent_retailAmount = Val (Fin 150),
                 ent_billing = Undefined, ent_commitment = Undefined,
                 ent_billingStartDate = Undefined, ent_billingEndDate = Undefined,
                 ent_commitmentStartDate = Undefined,
                 ent_commitmentEndDate = Undefined \<rparr>] \<rparr>]"
    by code_simp
  show ?thesis
    using a1 a2 a3 a4 a5 a6 subscriptions_content[of line tenant]
      entries_content[of line tenant] connectors_content[of line tenant]
      tenant_content[of line tenant] strategy_lengths(1-3)[of line tenant]
      connector_amount(1)[where line=line and tenant=tenant and i=i and c=c and a=a]
      connector_amount(2)[where line=line and tenant=tenant and i=i and c=c and q=q and u=u]
      synthetic_entries[of line tenant] tenants_subscriptions[of lines] ex1 ex2 ex3 ex4
    by (intro conjI)
qed

theorem mapSubscriptions_chain_witness:
  "from_subscriptions example_line
     (example_tenant\<lparr> ta_subscriptions := Val [example_subscription],
                       ta_entries := Val [example_entry] \<rparr>) \<noteq> [] \<and>
   map sub_id
     (mapSubscriptions example_line
        (example_tenant\<lparr> ta_subscriptions := Val [example_subscription],
                          ta_entries := Val [example_entry] \<rparr>)) = [''s-1''] \<and>
   from_subscriptions example_line (example_tenant\<lparr> ta_entries := Val [example_entry] \<rparr>) = [] \<and>
   from_entries example_line (example_tenant\<lparr> ta_entries := Val [example_entry] \<rparr>) \<noteq> [] \<and>
   map sub_id
     (mapSubscriptions example_line (example_tenant\<lparr> ta_entries := Val [example_entry] \<rparr>))
     = [''sku-9''] \<and>
   from_subscriptions example_line (example_tenant\<lparr> ta_connectors := Val [example_connector] \<rparr>) = [] \<and>
   from_entries example_line (example_tenant\<lparr> ta_connectors := Val [example_connector] \<rparr>) = [] \<and>
   from_connectors example_line (example_tenant\<lparr> ta_connectors := Val [example_connector] \<rparr>) \<noteq> [] \<and>
   map sub_amount
     (mapSubscriptions example_line (example_tenant\<lparr> ta_connectors := Val [example_connector] \<rparr>))
     = [Val (Fin 21)] \<and>
   from_subscriptions example_line example_tenant = [] \<and>
   from_entries example_line example_tenant = [] \<and>
   from_connectors example_line example_tenant = [] \<and>
   map (\<lambda>s. (sub_description s, sub_licensQuantity s, sub_amount s))
     (mapSubscriptions example_line example_tenant)
     = [(''Microsoft licenses'', Val (Fin 4), Val (Fin 100))]"
proof -
  let ?t1 = "example_tenant\<lparr> ta_subscriptions := Val [example_subscription],
                            ta_entries := Val [example_entry] \<rparr>"
  let ?t2 = "example_tenant\<lparr> ta_entries := Val [example_entry] \<rparr>"
  let ?t3 = "example_tenant\<lparr> ta_connectors := Val [example_connector] \<rparr>"
  have s1: "from_subscriptions example_line ?t1 \<noteq> []"
    by (simp add: from_subscriptions_def)
  have s2: "from_subscriptions example_line ?t2 = []"
    and e2: "from_entries example_line ?t2 \<noteq> []"
    by (simp_all add: from_subscriptions_def from_entries_def example_tenant_def)
  have s3: "from_subscriptions example_line ?t3 = []"
    and e3: "from_entries example_line ?t3 = []"
    and c3: "from_connectors example_line ?t3 \<noteq> []"
    by (simp_all add: from_subscriptions_def from_entries_def from_connectors_def
          example_tenant_def)
  have s4: "from_subscriptions example_line example_tenant = []"
    and e4: "from_entries example_line example_tenant = []"
    and c4: "from_connectors example_line example_tenant = []"
    by (simp_all add: from_subscriptions_def from_entries_def from_connectors_def
          example_tenant_def)
  from mapSubscriptions_chain[of example_line ?t1] s1
  have r1: "mapSubscriptions example_line ?t1 = from_subscriptions example_line ?t1"
    by blast
  from mapSubscriptions_chain[of example_line ?t2] s2 e2
  have r2: "mapSubscriptions example_line ?t2 = from_entries example_line ?t2"
    by blast
  from mapSubscriptions_chain[of example_line ?t3] s3 e3 c3
  have r3: "mapSubscriptions example_line ?t3 = from_connectors example_line ?t3"
    by blast
  from mapSubscriptions_chain[of example_line example_tenant] s4 e4 c4
  have r4: "mapSubscriptions example_line example_tenant = from_tenant example_line example_tenant"
    by blast
  have v1: "map sub_id (from_subscriptions example_line ?t1) = [''s-1'']"
    by code_simp
  have v2: "map sub_id (from_entries example_line ?t2) = [''sku-9'']"
    by code_simp
  have v3: "map sub_amount (from_connectors example_line ?t3) = [Val (Fin 21)]"
    by code_simp
  have v4: "map (\<lambda>s. (sub_description s, sub_licensQuantity s, sub_amount s))
     (from_tenant example_line example_tenant)
     = [(''Microsoft licenses'', Val (Fin 4), Val (Fin 100))]"
    by code_simp
  show ?thesis
    using s1 s2 e2 s3 e3 c3 s4 e4 c4 v1 v2 v3 v4
    unfolding r1 r2 r3 r4 by (intro conjI)
qed

end
